theory Spec2Isabelle
  imports Main
begin

section \<open>JavaScript values\<close>

text \<open>
  The client is written in TypeScript and passes untyped data (\<^verbatim>\<open>params: any\<close>)
  to its request core, so the model starts with the JavaScript values the core can
  inspect. Strings are byte strings holding the UTF-8 encoding of the JavaScript string
  (every character the core tests for is ASCII). Numbers are the integers and NaN:
  \<^verbatim>\<open>parseInt\<close> returns nothing else, and the API's numeric parameters
  (\<^verbatim>\<open>page\<close>, \<^verbatim>\<open>per_page\<close>, post numbers) are integers; their decimal text is
  what JavaScript prints for an integer below \<open>10\<^sup>2\<^sup>1\<close>, and the rounding of
  integers beyond \<open>2\<^sup>5\<^sup>3\<close> is not modelled. An object is the list of its own
  enumerable properties in enumeration order.
\<close>

datatype jsnum = NaN | Num int

datatype jsval =
    JUndefined
  | JNull
  | JBool bool
  | JNumber jsnum
  | JString string
  | JArray "jsval list"
  | JObject "(string \<times> jsval) list"

text \<open>
  What the program can throw or reject with: the client's own \<^verbatim>\<open>EsaApiError\<close>
  (lines 18-28, with the fields \<^verbatim>\<open>status\<close> and \<^verbatim>\<open>data\<close>), the
  \<^verbatim>\<open>TypeError\<close> of the language, a plain \<^verbatim>\<open>Error\<close> with its message, and
  whatever the transport rejected with.
\<close>

datatype js_error =
    EsaApiError nat jsval
  | TypeError string
  | Error string
  | FetchFailure string

subsection \<open>Decimal digits\<close>

definition digit_char :: "nat \<Rightarrow> char" where
  "digit_char d = char_of (48 + d)"

fun nat_to_dec :: "nat \<Rightarrow> string" where
  "nat_to_dec n = (if n < 10 then [digit_char n] else nat_to_dec (n div 10) @ [digit_char (n mod 10)])"

declare nat_to_dec.simps [simp del]

definition int_to_dec :: "int \<Rightarrow> string" where
  "int_to_dec i = (if i < 0 then CHR ''-'' # nat_to_dec (nat (- i)) else nat_to_dec (nat i))"

text \<open>\<^verbatim>\<open>Number.prototype.toString\<close>, also what a template literal prints.\<close>

definition num_to_string :: "jsnum \<Rightarrow> string" where
  "num_to_string n = (case n of NaN \<Rightarrow> ''NaN'' | Num i \<Rightarrow> int_to_dec i)"

text \<open>Multiplication of numbers: NaN is absorbing.\<close>

definition num_times :: "jsnum \<Rightarrow> int \<Rightarrow> jsnum" where
  "num_times n k = (case n of NaN \<Rightarrow> NaN | Num i \<Rightarrow> Num (i * k))"

subsection \<open>String coercion\<close>

definition intercalate :: "'a list \<Rightarrow> 'a list list \<Rightarrow> 'a list" where
  "intercalate sep xss = (case xss of [] \<Rightarrow> [] | x # xs \<Rightarrow> x @ concat (map (\<lambda>y. sep @ y) xs))"

text \<open>
  The abstract operation ToString on the values of the model. An array joins its
  elements with a comma, printing \<^verbatim>\<open>undefined\<close> and \<^verbatim>\<open>null\<close> elements as
  the empty string; a plain object prints as \<^verbatim>\<open>[object Object]\<close>.
\<close>

primrec ToString :: "jsval \<Rightarrow> string"
  and join_elems :: "jsval list \<Rightarrow> string list"
where
  "ToString JUndefined = ''undefined''"
| "ToString JNull = ''null''"
| "ToString (JBool b) = (if b then ''true'' else ''false'')"
| "ToString (JNumber n) = num_to_string n"
| "ToString (JString s) = s"
| "ToString (JArray xs) = intercalate '','' (join_elems xs)"
| "ToString (JObject kvs) = ''[object Object]''"
| "join_elems [] = []"
| "join_elems (x # xs) =
     (if x = JUndefined \<or> x = JNull then [] else ToString x) # join_elems xs"

text \<open>
  The method call \<^verbatim>\<open>v.toString()\<close> of line 96: reading a property of
  \<^verbatim>\<open>undefined\<close> or \<^verbatim>\<open>null\<close> throws a TypeError; every other value of the
  model has the method, and it returns what ToString returns.
\<close>

definition call_toString :: "jsval \<Rightarrow> js_error + string" where
  "call_toString v =
     (if v = JUndefined then Inl (TypeError ''Cannot read properties of undefined (reading 'toString')'')
      else if v = JNull then Inl (TypeError ''Cannot read properties of null (reading 'toString')'')
      else Inr (ToString v))"

subsection \<open>Truthiness\<close>

text \<open>
  A \<^verbatim>\<open>string | null | undefined\<close> is modelled as a \<open>string option\<close>. Both
  the missing value and the empty string are falsy; \<^verbatim>\<open>a || b\<close> is \<open>a\<close> when
  \<open>a\<close> is truthy and \<open>b\<close> otherwise.
\<close>

definition truthy :: "string option \<Rightarrow> bool" where
  "truthy t = (case t of None \<Rightarrow> False | Some s \<Rightarrow> s \<noteq> [])"

definition js_or :: "string option \<Rightarrow> string option \<Rightarrow> string option" where
  "js_or a b = (if truthy a then a else b)"

section \<open>Library functions the request core calls\<close>

subsection \<open>\<^verbatim>\<open>String.prototype.toLowerCase\<close>\<close>

text \<open>
  Only the ASCII letters are mapped. The core compares the result with \<^verbatim>\<open>get\<close>,
  and no character outside ASCII has \<^verbatim>\<open>g\<close>, \<^verbatim>\<open>e\<close> or \<^verbatim>\<open>t\<close> as its
  lower case, so the comparison is the one JavaScript makes.
\<close>

definition lower_char :: "char \<Rightarrow> char" where
  "lower_char c = (let n = (of_char c :: nat) in if 65 \<le> n \<and> n \<le> 90 then char_of (n + 32) else c)"

definition toLowerCase :: "string \<Rightarrow> string" where
  "toLowerCase s = map lower_char s"

subsection \<open>\<^verbatim>\<open>parseInt(s, 10)\<close>\<close>

text \<open>
  ECMAScript's \<^verbatim>\<open>parseInt\<close> with radix 10: leading white space is skipped, one
  sign is read, then the longest run of decimal digits; no digit at all gives NaN. The
  argument is a header value, whose bytes are the string's code units, so the white space
  is TAB, LF, VT, FF, CR, SP and NBSP.
\<close>

definition is_space :: "char \<Rightarrow> bool" where
  "is_space c = ((of_char c :: nat) \<in> {9, 10, 11, 12, 13, 32, 160})"

definition is_digit :: "char \<Rightarrow> bool" where
  "is_digit c = (48 \<le> (of_char c :: nat) \<and> (of_char c :: nat) \<le> 57)"

definition digits_value :: "string \<Rightarrow> nat" where
  "digits_value ds = foldl (\<lambda>acc c. 10 * acc + ((of_char c :: nat) - 48)) 0 ds"

definition parseInt :: "string \<Rightarrow> jsnum" where
  "parseInt s =
     (let s1 = dropWhile is_space s;
          negative = (case s1 of [] \<Rightarrow> False | c # _ \<Rightarrow> c = CHR ''-'');
          s2 = (case s1 of [] \<Rightarrow> [] | c # cs \<Rightarrow> if c = CHR ''+'' \<or> c = CHR ''-'' then cs else s1);
          z = takeWhile is_digit s2
      in if z = [] then NaN
         else Num ((if negative then - 1 else 1) * int (digits_value z)))"

subsection \<open>\<^verbatim>\<open>String.prototype.replace\<close> with a string pattern\<close>

text \<open>
  \<^verbatim>\<open>s.replace(pattern, replacement)\<close> with two strings replaces the first
  occurrence of the pattern only, and it expands the replacement: \<^verbatim>\<open>$$\<close> is a
  dollar sign, \<^verbatim>\<open>$&\<close> the matched text, \<^verbatim>\<open>$`\<close> the text preceding the match
  and \<^verbatim>\<open>$'\<close> the text following it. Any other dollar sign stands for itself (a
  string pattern has no capture groups).
\<close>

primrec indexOf :: "string \<Rightarrow> string \<Rightarrow> nat option" where
  "indexOf [] pat = (if pat = [] then Some 0 else None)"
| "indexOf (c # cs) pat =
     (if take (length pat) (c # cs) = pat then Some 0 else map_option Suc (indexOf cs pat))"

fun GetSubstitution :: "string \<Rightarrow> string \<Rightarrow> string \<Rightarrow> string \<Rightarrow> string" where
  "GetSubstitution matched preceding following [] = []"
| "GetSubstitution matched preceding following [c] = [c]"
| "GetSubstitution matched preceding following (c # d # rest) =
     (if c = CHR ''$'' \<and> d = CHR ''$'' then CHR ''$'' # GetSubstitution matched preceding following rest
      else if c = CHR ''$'' \<and> d = CHR ''&'' then matched @ GetSubstitution matched preceding following rest
      else if c = CHR ''$'' \<and> d = CHR 0x60 then preceding @ GetSubstitution matched preceding following rest
      else if c = CHR ''$'' \<and> d = CHR 0x27 then following @ GetSubstitution matched preceding following rest
      else c # GetSubstitution matched preceding following (d # rest))"

definition js_replace :: "string \<Rightarrow> string \<Rightarrow> string \<Rightarrow> string" where
  "js_replace s pat repl =
     (case indexOf s pat of
        None \<Rightarrow> s
      | Some i \<Rightarrow>
          (let preceding = take i s; following = drop (i + length pat) s
           in preceding @ GetSubstitution pat preceding following repl @ following))"

subsection \<open>\<^verbatim>\<open>URLSearchParams\<close>\<close>

text \<open>
  \<^verbatim>\<open>URLSearchParams.prototype.toString\<close> is the URL standard's
  application/x-www-form-urlencoded serializer: in names and values a space becomes
  \<^verbatim>\<open>+\<close>, the bytes \<^verbatim>\<open>* - . _\<close>, digits and ASCII letters stand for
  themselves, every other byte is written \<^verbatim>\<open>%XX\<close> in upper-case hexadecimal;
  a pair is \<^verbatim>\<open>name=value\<close> and pairs are joined by \<^verbatim>\<open>&\<close>.
\<close>

definition urlencoded_plain :: "char \<Rightarrow> bool" where
  "urlencoded_plain c =
     (let n = (of_char c :: nat)
      in n = 42 \<or> n = 45 \<or> n = 46 \<or> n = 95 \<or> (48 \<le> n \<and> n \<le> 57)
         \<or> (65 \<le> n \<and> n \<le> 90) \<or> (97 \<le> n \<and> n \<le> 122))"

definition hex_upper :: "nat \<Rightarrow> char" where
  "hex_upper d = (if d < 10 then char_of (48 + d) else char_of (55 + d))"

definition urlencode_byte :: "char \<Rightarrow> string" where
  "urlencode_byte c =
     (if c = CHR '' '' then ''+''
      else if urlencoded_plain c then [c]
      else [CHR ''%'', hex_upper ((of_char c :: nat) div 16), hex_upper ((of_char c :: nat) mod 16)])"

definition urlencode :: "string \<Rightarrow> string" where
  "urlencode s = concat (map urlencode_byte s)"

definition urlencoded_serialize :: "(string \<times> string) list \<Rightarrow> string" where
  "urlencoded_serialize kvs = intercalate ''&'' (map (\<lambda>(k, v). urlencode k @ ''='' @ urlencode v) kvs)"

subsection \<open>\<^verbatim>\<open>JSON.stringify\<close>\<close>

text \<open>
  ECMAScript's SerializeJSONProperty on the values of the model: \<^verbatim>\<open>undefined\<close>
  has no JSON text (a property holding it is left out of an object, and an array prints
  it as \<^verbatim>\<open>null\<close>), NaN prints as \<^verbatim>\<open>null\<close>, strings are quoted with the
  control characters, the quote and the backslash escaped, and the properties of an
  object are written in their enumeration order.
\<close>

definition hex_lower :: "nat \<Rightarrow> char" where
  "hex_lower d = (if d < 10 then char_of (48 + d) else char_of (87 + d))"

definition json_escape :: "char \<Rightarrow> string" where
  "json_escape c =
     (let n = (of_char c :: nat)
      in if n = 8 then [CHR 0x5C, CHR ''b'']
         else if n = 9 then [CHR 0x5C, CHR ''t'']
         else if n = 10 then [CHR 0x5C, CHR ''n'']
         else if n = 12 then [CHR 0x5C, CHR ''f'']
         else if n = 13 then [CHR 0x5C, CHR ''r'']
         else if n = 34 then [CHR 0x5C, CHR 0x22]
         else if n = 92 then [CHR 0x5C, CHR 0x5C]
         else if n < 32 then [CHR 0x5C, CHR ''u'', CHR ''0'', CHR ''0'', hex_lower (n div 16), hex_lower (n mod 16)]
         else [c])"

definition QuoteJSONString :: "string \<Rightarrow> string" where
  "QuoteJSONString s = CHR 0x22 # concat (map json_escape s) @ [CHR 0x22]"

primrec SerializeJSONProperty :: "jsval \<Rightarrow> string option"
  and serialize_elems :: "jsval list \<Rightarrow> string list"
  and serialize_props :: "(string \<times> jsval) list \<Rightarrow> string list"
  and serialize_prop :: "string \<times> jsval \<Rightarrow> string list"
where
  "SerializeJSONProperty JUndefined = None"
| "SerializeJSONProperty JNull = Some ''null''"
| "SerializeJSONProperty (JBool b) = Some (if b then ''true'' else ''false'')"
| "SerializeJSONProperty (JNumber n) = Some (case n of NaN \<Rightarrow> ''null'' | Num i \<Rightarrow> int_to_dec i)"
| "SerializeJSONProperty (JString s) = Some (QuoteJSONString s)"
| "SerializeJSONProperty (JArray xs) = Some (''['' @ intercalate '','' (serialize_elems xs) @ '']'')"
| "SerializeJSONProperty (JObject kvs) = Some (''{'' @ intercalate '','' (serialize_props kvs) @ ''}'')"
| "serialize_elems [] = []"
| "serialize_elems (x # xs) =
     (case SerializeJSONProperty x of None \<Rightarrow> ''null'' | Some t \<Rightarrow> t) # serialize_elems xs"
| "serialize_props [] = []"
| "serialize_props (kv # kvs) = serialize_prop kv @ serialize_props kvs"
| "serialize_prop (k, v) =
     (case SerializeJSONProperty v of None \<Rightarrow> [] | Some t \<Rightarrow> [QuoteJSONString k @ '':'' @ t])"

definition JSON_stringify :: "jsval \<Rightarrow> string option" where
  "JSON_stringify v = SerializeJSONProperty v"

section \<open>The transport boundary\<close>

text \<open>
  \<^verbatim>\<open>fetch\<close> is outside the program. A request is what the core hands to it; a
  response is what the core reads from it: the status, the headers, what
  \<^verbatim>\<open>json()\<close> resolves with and what \<^verbatim>\<open>text()\<close> resolves with
  (\<open>None\<close> when the promise rejects). The two readers are independent of each
  other, as in the transport contract of the specification and in the mocks of the test
  suite. (A body of the Fetch API can be read once: there \<^verbatim>\<open>text()\<close> rejects
  after a \<^verbatim>\<open>json()\<close> that failed, unless the response has no body. Such
  responses are among the ones of the model.) A multipart form is the list of its
  appended fields, each a string or a file.
\<close>

datatype form_value = FormString string | FormFile string

type_synonym form_data = "(string \<times> form_value) list"

datatype request_body = TextBody string | FormBody form_data

record http_request =
  http_method :: string
  url :: string
  headers :: "(string \<times> string) list"
  body :: "request_body option"

record response =
  status :: nat
  response_headers :: "(string \<times> string) list"
  json_result :: "jsval option"
  text_result :: "string option"

text \<open>\<^verbatim>\<open>Response.ok\<close> is the Fetch standard's getter: the status is in 200..299.\<close>

definition ok :: "response \<Rightarrow> bool" where
  "ok r = (200 \<le> status r \<and> status r \<le> 299)"

text \<open>
  \<^verbatim>\<open>Headers.prototype.get\<close>: names compare without case, the values of a repeated
  header are joined with a comma and a space, and a missing header is \<^verbatim>\<open>null\<close>.
\<close>

definition headers_get :: "(string \<times> string) list \<Rightarrow> string \<Rightarrow> string option" where
  "headers_get hs name =
     (let vs = map snd (filter (\<lambda>(k, v). toLowerCase k = toLowerCase name) hs)
      in if vs = [] then None else Some (intercalate '', '' vs))"

datatype fetch_result = FetchResolved response | FetchRejected string

text \<open>
  The transport is a deterministic machine over a state of the outside world: given its
  state and a request it answers (or fails) and moves on. The run of a call records what
  the program did, in order: the exchanges it issued, the body readers it invoked, the
  timers it waited for (the argument of \<^verbatim>\<open>setTimeout\<close>, in milliseconds) and its
  console output.
\<close>

type_synonym 'w transport = "'w \<Rightarrow> http_request \<Rightarrow> fetch_result \<times> 'w"

datatype event =
    Fetch http_request
  | ReadJson
  | ReadText
  | SetTimeout jsnum
  | ConsoleWarn string
  | ConsoleError js_error

record 'w run =
  world :: 'w
  trace :: "event list"

definition emit :: "event list \<Rightarrow> 'w run \<Rightarrow> 'w run" where
  "emit es s = s\<lparr>trace := trace s @ es\<rparr>"

text \<open>
  How a call ends: \<open>Thrown\<close> is an exception raised before any promise exists,
  \<open>Rejected\<close> and \<open>Fulfilled\<close> are the two ways the returned promise settles.
\<close>

datatype outcome = Thrown js_error | Rejected js_error | Fulfilled jsval

section \<open>The client\<close>

record client =
  baseUrl :: string
  token :: string
  teamName :: "string option"

text \<open>The constructor, lines 43-46: a falsy team name becomes \<^verbatim>\<open>null\<close>.\<close>

definition new_EsaClient :: "string \<Rightarrow> string option \<Rightarrow> client" where
  "new_EsaClient tok tn =
     \<lparr>baseUrl = ''https://api.esa.io/v1'', token = tok, teamName = js_or tn None\<rparr>"

definition setTeamName :: "string \<Rightarrow> client \<Rightarrow> client" where
  "setTeamName tn this = this\<lparr>teamName := Some tn\<rparr>"

definition getTeamName :: "client \<Rightarrow> string option" where
  "getTeamName this = teamName this"

text \<open>The message the constructor of \<^verbatim>\<open>EsaApiError\<close> builds, line 23.\<close>

definition EsaApiError_message :: "nat \<Rightarrow> jsval \<Rightarrow> string" where
  "EsaApiError_message st data =
     ''ESA API Error ('' @ nat_to_dec st @ ''): '' @
       (case JSON_stringify data of None \<Rightarrow> ''undefined'' | Some t \<Rightarrow> t)"

subsection \<open>Building the exchange (lines 78-106)\<close>

text \<open>
  The payload of a call is a plain object or a \<^verbatim>\<open>FormData\<close>: the public methods
  pass nothing else. \<^verbatim>\<open>Object.keys\<close> of a \<^verbatim>\<open>FormData\<close> is empty (its fields
  are not own properties).
\<close>

datatype payload = Plain "(string \<times> jsval) list" | Multipart form_data

definition Object_keys :: "payload \<Rightarrow> string list" where
  "Object_keys params = (case params of Plain kvs \<Rightarrow> map fst kvs | Multipart fd \<Rightarrow> [])"

text \<open>
  The loop of lines 94-98 over the properties of \<^verbatim>\<open>params\<close>, appending to
  \<^verbatim>\<open>queryParams\<close>; it stops with the TypeError of \<^verbatim>\<open>toString\<close>.
\<close>

fun append_params :: "(string \<times> jsval) list \<Rightarrow> (string \<times> string) list \<Rightarrow> js_error + (string \<times> string) list" where
  "append_params [] queryParams = Inr queryParams"
| "append_params ((key, v) # rest) queryParams =
     (if v \<noteq> JUndefined then
        (case call_toString v of
           Inl e \<Rightarrow> Inl e
         | Inr t \<Rightarrow> append_params rest (queryParams @ [(key, t)]))
      else append_params rest queryParams)"

definition effective_team :: "client \<Rightarrow> string option \<Rightarrow> string option" where
  "effective_team this teamName' = js_or teamName' (teamName this)"

definition processedPath :: "client \<Rightarrow> string \<Rightarrow> string option \<Rightarrow> string" where
  "processedPath this path teamName' =
     (let team = effective_team this teamName'
      in if truthy team then js_replace path '':team_name'' (case team of Some t \<Rightarrow> t | None \<Rightarrow> [])
         else path)"

definition default_headers :: "client \<Rightarrow> (string \<times> string) list" where
  "default_headers this =
     [(''Authorization'', ''Bearer '' @ token this), (''Content-Type'', ''application/json'')]"

definition delete_header :: "string \<Rightarrow> (string \<times> string) list \<Rightarrow> (string \<times> string) list" where
  "delete_header name hs = filter (\<lambda>(k, v). k \<noteq> name) hs"

definition build_request :: "client \<Rightarrow> string \<Rightarrow> string \<Rightarrow> payload \<Rightarrow> string option \<Rightarrow> js_error + http_request" where
  "build_request this method path params teamName' =
     (let url0 = baseUrl this @ processedPath this path teamName';
          headers0 = default_headers this
      in if toLowerCase method = ''get'' \<and> length (Object_keys params) > 0 then
           (case append_params (case params of Plain kvs \<Rightarrow> kvs | Multipart fd \<Rightarrow> []) [] of
              Inl e \<Rightarrow> Inl e
            | Inr queryParams \<Rightarrow>
                Inr \<lparr>http_method = method, url = url0 @ ''?'' @ urlencoded_serialize queryParams,
                     headers = headers0, body = None\<rparr>)
         else (case params of
              Multipart fd \<Rightarrow>
                Inr \<lparr>http_method = method, url = url0,
                     headers = delete_header ''Content-Type'' headers0, body = Some (FormBody fd)\<rparr>
            | Plain kvs \<Rightarrow>
                if length (Object_keys params) > 0 then
                  Inr \<lparr>http_method = method, url = url0, headers = headers0,
                       body = map_option TextBody (JSON_stringify (JObject kvs))\<rparr>
                else
                  Inr \<lparr>http_method = method, url = url0, headers = headers0, body = None\<rparr>))"

subsection \<open>Classifying the response (lines 117-156)\<close>

text \<open>Lines 129-141: the best-effort body of an error response, with the readers invoked.\<close>

definition errorData :: "response \<Rightarrow> jsval \<times> event list" where
  "errorData r =
     (case json_result r of
        Some d \<Rightarrow> (d, [ReadJson])
      | None \<Rightarrow>
          (case text_result r of
             Some t \<Rightarrow>
               (JObject [(''message'', JString (if t \<noteq> [] then t else ''Failed to parse error response''))],
                [ReadJson, ReadText])
           | None \<Rightarrow>
               (JObject [(''message'', JString ''Failed to parse error response'')],
                [ReadJson, ReadText])))"

text \<open>Lines 146-154: the result of a successful response.\<close>

definition successData :: "response \<Rightarrow> jsval \<times> event list" where
  "successData r =
     (if status r \<noteq> 204 then
        (case json_result r of
           Some d \<Rightarrow> (d, [ReadJson])
         | None \<Rightarrow> (JObject [], [ReadJson]))
      else (JNull, []))"

text \<open>Line 118: the number of seconds to wait after a 429.\<close>

definition retryAfter :: "response \<Rightarrow> jsnum" where
  "retryAfter r =
     parseInt (case js_or (headers_get (response_headers r) ''retry-after'') (Some ''60'') of
                 Some h \<Rightarrow> h | None \<Rightarrow> [])"

text \<open>Line 119: the text of the warning.\<close>

definition rate_limit_warning :: "jsnum \<Rightarrow> string" where
  "rate_limit_warning n = ''Rate limit exceeded. Retrying after '' @ num_to_string n @ '' seconds.''"

text \<open>
  The request core, lines 72-166. A 429 makes the function call itself again with its
  own arguments after the timer; nothing bounds the number of these calls, so the
  function is partial: \<open>None\<close> is the call that never settles.
\<close>

partial_function (option) request ::
  "'w transport \<Rightarrow> client \<Rightarrow> string \<Rightarrow> string \<Rightarrow> payload \<Rightarrow> string option \<Rightarrow> 'w run
    \<Rightarrow> (outcome \<times> 'w run) option"
where
  "request fetch this method path params teamName' s =
     (case build_request this method path params teamName' of
        Inl e \<Rightarrow> Some (Rejected e, s)
      | Inr req \<Rightarrow>
          (case fst (fetch (world s) req) of
             FetchRejected msg \<Rightarrow>
               Some (Rejected (FetchFailure msg),
                     emit [Fetch req, ConsoleError (FetchFailure msg)]
                       (s\<lparr>world := snd (fetch (world s) req)\<rparr>))
           | FetchResolved r \<Rightarrow>
               if status r = 429 then
                 request fetch this method path params teamName'
                   (emit [Fetch req,
                          ConsoleWarn (rate_limit_warning (retryAfter r)),
                          SetTimeout (num_times (retryAfter r) 1000)]
                      (s\<lparr>world := snd (fetch (world s) req)\<rparr>))
               else if \<not> ok r then
                 Some (Rejected (EsaApiError (status r) (fst (errorData r))),
                       emit (Fetch req # snd (errorData r))
                         (s\<lparr>world := snd (fetch (world s) req)\<rparr>))
               else
                 Some (Fulfilled (fst (successData r)),
                       emit (Fetch req # snd (successData r))
                         (s\<lparr>world := snd (fetch (world s) req)\<rparr>))))"

subsection \<open>The public methods the claims name\<close>

text \<open>
  The helpers of lines 171-201 pass \<^verbatim>\<open>params || {}\<close>; an object is always truthy,
  so only a missing argument becomes the empty object.
\<close>

definition get ::
  "'w transport \<Rightarrow> client \<Rightarrow> string \<Rightarrow> payload option \<Rightarrow> string option \<Rightarrow> 'w run
    \<Rightarrow> (outcome \<times> 'w run) option" where
  "get fetch this path params teamName' s =
     request fetch this ''get'' path (case params of None \<Rightarrow> Plain [] | Some p \<Rightarrow> p) teamName' s"

definition post ::
  "'w transport \<Rightarrow> client \<Rightarrow> string \<Rightarrow> payload option \<Rightarrow> string option \<Rightarrow> 'w run
    \<Rightarrow> (outcome \<times> 'w run) option" where
  "post fetch this path params teamName' s =
     request fetch this ''post'' path (case params of None \<Rightarrow> Plain [] | Some p \<Rightarrow> p) teamName' s"

definition patch ::
  "'w transport \<Rightarrow> client \<Rightarrow> string \<Rightarrow> payload option \<Rightarrow> string option \<Rightarrow> 'w run
    \<Rightarrow> (outcome \<times> 'w run) option" where
  "patch fetch this path params teamName' s =
     request fetch this ''patch'' path (case params of None \<Rightarrow> Plain [] | Some p \<Rightarrow> p) teamName' s"

text \<open>Lines 218-220.\<close>

definition getTeam ::
  "'w transport \<Rightarrow> client \<Rightarrow> string option \<Rightarrow> 'w run \<Rightarrow> (outcome \<times> 'w run) option" where
  "getTeam fetch this teamName' s = get fetch this ''/teams/:team_name'' (Some (Plain [])) teamName' s"

text \<open>Lines 274-276.\<close>

definition getPosts ::
  "'w transport \<Rightarrow> client \<Rightarrow> (string \<times> jsval) list option \<Rightarrow> string option \<Rightarrow> 'w run
    \<Rightarrow> (outcome \<times> 'w run) option" where
  "getPosts fetch this params teamName' s =
     get fetch this ''/teams/:team_name/posts'' (map_option Plain params) teamName' s"

text \<open>Lines 284-291; \<^verbatim>\<open>include\<close> is an optional string, used when truthy.\<close>

definition getPost ::
  "'w transport \<Rightarrow> client \<Rightarrow> jsnum \<Rightarrow> string option \<Rightarrow> string option \<Rightarrow> 'w run
    \<Rightarrow> (outcome \<times> 'w run) option" where
  "getPost fetch this postNumber include teamName' s =
     get fetch this (''/teams/:team_name/posts/'' @ num_to_string postNumber)
       (Some (Plain (if truthy include
                     then [(''include'', JString (case include of Some i \<Rightarrow> i | None \<Rightarrow> []))]
                     else [])))
       teamName' s"

text \<open>Lines 298-310: the parameters are wrapped as \<^verbatim>\<open>{ post: params }\<close>.\<close>

definition createPost ::
  "'w transport \<Rightarrow> client \<Rightarrow> (string \<times> jsval) list \<Rightarrow> string option \<Rightarrow> 'w run
    \<Rightarrow> (outcome \<times> 'w run) option" where
  "createPost fetch this params teamName' s =
     post fetch this ''/teams/:team_name/posts'' (Some (Plain [(''post'', JObject params)])) teamName' s"

definition updatePost ::
  "'w transport \<Rightarrow> client \<Rightarrow> jsnum \<Rightarrow> (string \<times> jsval) list \<Rightarrow> string option \<Rightarrow> 'w run
    \<Rightarrow> (outcome \<times> 'w run) option" where
  "updatePost fetch this postNumber params teamName' s =
     patch fetch this (''/teams/:team_name/posts/'' @ num_to_string postNumber)
       (Some (Plain [(''post'', JObject params)])) teamName' s"

text \<open>
  Lines 661-691. \<^verbatim>\<open>CreateEmojiParams\<close> has a required code, an optional origin
  code and an optional image that is a string or a file. The check of the team comes
  first and throws: the method is not \<^verbatim>\<open>async\<close>, so no promise is returned.
\<close>

record CreateEmojiParams =
  emoji_code :: string
  emoji_origin_code :: "string option"
  emoji_image :: "form_value option"

definition emoji_formData :: "CreateEmojiParams \<Rightarrow> form_data" where
  "emoji_formData params =
     [(''emoji[code]'', FormString (emoji_code params))]
     @ (if truthy (emoji_origin_code params)
        then [(''emoji[origin_code]'',
               FormString (case emoji_origin_code params of Some c \<Rightarrow> c | None \<Rightarrow> []))]
        else [])
     @ (case emoji_image params of
          None \<Rightarrow> []
        | Some (FormString i) \<Rightarrow> if i \<noteq> [] then [(''emoji[image]'', FormString i)] else []
        | Some (FormFile f) \<Rightarrow> [(''emoji[image]'', FormFile f)])"

definition createEmoji ::
  "'w transport \<Rightarrow> client \<Rightarrow> CreateEmojiParams \<Rightarrow> string option \<Rightarrow> 'w run
    \<Rightarrow> (outcome \<times> 'w run) option" where
  "createEmoji fetch this params teamName' s =
     (let team = js_or teamName' (teamName this)
      in if \<not> truthy team then
           Some (Thrown (Error ''Team name is required for creating emoji''), s)
         else
           request fetch this ''post'' ''/teams/:team_name/emojis''
             (Multipart (emoji_formData params)) team s)"

section \<open>A scripted transport\<close>

text \<open>
  The test suite replaces \<^verbatim>\<open>fetch\<close> by a mock that answers from a queue
  (\<^verbatim>\<open>mockResolvedValueOnce\<close>), whatever the request. Its state is the queue; an
  exhausted queue fails the exchange.
\<close>

definition scripted :: "(fetch_result list) transport" where
  "scripted q req = (case q of [] \<Rightarrow> (FetchRejected ''fetch failed'', []) | a # rest \<Rightarrow> (a, rest))"

text \<open>The number of transport exchanges in a trace.\<close>

definition exchanges :: "event list \<Rightarrow> nat" where
  "exchanges es = length (filter (\<lambda>e. case e of Fetch req \<Rightarrow> True | _ \<Rightarrow> False) es)"

section \<open>Notions the properties are stated with\<close>

text \<open>
  What one rate-limited round adds to the trace: the exchange, the warning of line 119
  and the timer of line 122.
\<close>

definition retry_round :: "http_request \<Rightarrow> response \<Rightarrow> event list" where
  "retry_round req r =
     [Fetch req, ConsoleWarn (rate_limit_warning (retryAfter r)),
      SetTimeout (num_times (retryAfter r) 1000)]"

text \<open>
  The entries the loop of lines 94-98 appends when nothing throws: those whose value is
  not \<^verbatim>\<open>undefined\<close>, each with its value coerced to a string.
\<close>

definition coerced_entries :: "(string \<times> jsval) list \<Rightarrow> (string \<times> string) list" where
  "coerced_entries kvs =
     map (\<lambda>kv. (fst kv, ToString (snd kv))) (filter (\<lambda>kv. snd kv \<noteq> JUndefined) kvs)"

text \<open>
  How the receiving side reads a query string: the URL standard's
  application/x-www-form-urlencoded parser. The string is split at \<^verbatim>\<open>&\<close>, empty
  pieces are skipped, a piece is split at its first \<^verbatim>\<open>=\<close>, and in names and
  values \<^verbatim>\<open>+\<close> is a space and \<^verbatim>\<open>%XX\<close> a byte.
\<close>

definition hex_value :: "char \<Rightarrow> nat option" where
  "hex_value c =
     (let n = (of_char c :: nat)
      in if 48 \<le> n \<and> n \<le> 57 then Some (n - 48)
         else if 65 \<le> n \<and> n \<le> 70 then Some (n - 55)
         else if 97 \<le> n \<and> n \<le> 102 then Some (n - 87)
         else None)"

fun percent_decode :: "string \<Rightarrow> string" where
  "percent_decode [] = []"
| "percent_decode (c # x # y # rest) =
     (if c = CHR ''%'' then
        (case (hex_value x, hex_value y) of
           (Some h, Some l) \<Rightarrow> char_of (16 * h + l) # percent_decode rest
         | _ \<Rightarrow> c # percent_decode (x # y # rest))
      else c # percent_decode (x # y # rest))"
| "percent_decode (c # rest) = c # percent_decode rest"

definition plus_to_space :: "string \<Rightarrow> string" where
  "plus_to_space s = map (\<lambda>c. if c = CHR ''+'' then CHR '' '' else c) s"

fun split_on :: "char \<Rightarrow> string \<Rightarrow> string list" where
  "split_on d [] = [[]]"
| "split_on d (c # cs) =
     (if c = d then [] # split_on d cs
      else (case split_on d cs of x # xs \<Rightarrow> (c # x) # xs | [] \<Rightarrow> [[c]]))"

definition urlencoded_parse :: "string \<Rightarrow> (string \<times> string) list" where
  "urlencoded_parse input =
     map (\<lambda>bytes.
            let name = takeWhile (\<lambda>c. c \<noteq> CHR ''='') bytes;
                val = drop (length name + 1) bytes
            in (percent_decode (plus_to_space name), percent_decode (plus_to_space val)))
         (filter (\<lambda>bytes. bytes \<noteq> []) (split_on (CHR ''&'') input))"

text \<open>
  How a call settles on a response that is not a 429, and which readers it invokes on
  the way: the last two branches of the request core (lines 129-156).
\<close>

definition settled_outcome :: "response \<Rightarrow> outcome" where
  "settled_outcome r =
     (if ok r then Fulfilled (fst (successData r))
      else Rejected (EsaApiError (status r) (fst (errorData r))))"

definition settled_reads :: "response \<Rightarrow> event list" where
  "settled_reads r = (if ok r then snd (successData r) else snd (errorData r))"

text \<open>
  The query of a URL, as the URL standard splits it: what follows the first
  \<^verbatim>\<open>?\<close>, up to a \<^verbatim>\<open>#\<close>.
\<close>

definition url_query :: "string \<Rightarrow> string" where
  "url_query u =
     takeWhile (\<lambda>c. c \<noteq> CHR ''#'') (drop 1 (dropWhile (\<lambda>c. c \<noteq> CHR ''?'') u))"

section \<open>Properties of the request core\<close>

subsection \<open>One exchange at a time\<close>

text \<open>
  The request core unfolds into five cases: the exchange cannot be built, the transport
  fails, or it answers with a 429, with another status outside 200..299, or with a
  status in 200..299. The state \<open>s\<close> is arbitrary in each of them, so they hold for the
  first exchange of a call and for every exchange re-issued after a 429.
\<close>

lemma append_params_error:
  "append_params kvs acc = Inl e \<Longrightarrow> \<exists>m. e = TypeError m"
  by (induction kvs acc rule: append_params.induct)
     (auto simp: call_toString_def split: if_splits sum.splits)

lemma build_request_error:
  "build_request this method path params t = Inl e \<Longrightarrow> \<exists>m. e = TypeError m"
  by (auto simp: build_request_def Let_def split: if_splits sum.splits payload.splits dest: append_params_error)

lemma request_build_error:
  "build_request this method path params t = Inl e \<Longrightarrow>
   request fetch this method path params t s = Some (Rejected e, s)"
  by (subst request.simps) simp

lemma request_rate_limited:
  "build_request this method path params t = Inr req \<Longrightarrow>
   fetch (world s) req = (FetchResolved r, w') \<Longrightarrow> status r = 429 \<Longrightarrow>
   request fetch this method path params t s =
   request fetch this method path params t
     (emit [Fetch req, ConsoleWarn (rate_limit_warning (retryAfter r)),
            SetTimeout (num_times (retryAfter r) 1000)]
        (s\<lparr>world := w'\<rparr>))"
  by (subst request.simps) simp

lemma request_error_response:
  "build_request this method path params t = Inr req \<Longrightarrow>
   fetch (world s) req = (FetchResolved r, w') \<Longrightarrow> status r \<noteq> 429 \<Longrightarrow> \<not> ok r \<Longrightarrow>
   request fetch this method path params t s =
   Some (Rejected (EsaApiError (status r) (fst (errorData r))),
         emit (Fetch req # snd (errorData r)) (s\<lparr>world := w'\<rparr>))"
  by (subst request.simps) simp

lemma request_success_response:
  "build_request this method path params t = Inr req \<Longrightarrow>
   fetch (world s) req = (FetchResolved r, w') \<Longrightarrow> ok r \<Longrightarrow>
   request fetch this method path params t s =
   Some (Fulfilled (fst (successData r)),
         emit (Fetch req # snd (successData r)) (s\<lparr>world := w'\<rparr>))"
  by (subst request.simps) (auto simp: ok_def)

lemma request_fetch_rejected:
  "build_request this method path params t = Inr req \<Longrightarrow>
   fetch (world s) req = (FetchRejected msg, w') \<Longrightarrow>
   request fetch this method path params t s =
   Some (Rejected (FetchFailure msg),
         emit [Fetch req, ConsoleError (FetchFailure msg)] (s\<lparr>world := w'\<rparr>))"
  by (subst request.simps) simp

lemma request_not_429:
  assumes "request fetch this method path params t s = Some y"
  shows "\<forall>st d s'. y = (Rejected (EsaApiError st d), s') \<longrightarrow> st \<noteq> 429"
  by (rule request.raw_induct
        [where P = "\<lambda>fetch this method path params t s y.
                      \<forall>st d s'. y = (Rejected (EsaApiError st d), s') \<longrightarrow> st \<noteq> 429",
         OF _ assms])
     (auto split: sum.splits fetch_result.splits if_splits dest: build_request_error)

lemma request_429_then_200:
  assumes b: "build_request this method path params t = Inr req"
    and f1: "fetch (world s) req = (FetchResolved r1, w1)" and s1: "status r1 = 429"
    and f2: "fetch w1 req = (FetchResolved r2, w2)" and s2: "status r2 = 200"
    and j: "json_result r2 = Some v"
  shows "request fetch this method path params t s =
         Some (Fulfilled v,
               \<lparr>world = w2,
                trace = trace s @ [Fetch req, ConsoleWarn (rate_limit_warning (retryAfter r1)),
                                   SetTimeout (num_times (retryAfter r1) 1000),
                                   Fetch req, ReadJson]\<rparr>)"
proof -
  let ?s1 = "emit [Fetch req, ConsoleWarn (rate_limit_warning (retryAfter r1)),
            SetTimeout (num_times (retryAfter r1) 1000)] (s\<lparr>world := w1\<rparr>)"
  have "request fetch this method path params t s = request fetch this method path params t ?s1"
    by (rule request_rate_limited [where fetch = fetch and s = s, OF b f1 s1])
  also have "\<dots> = Some (Fulfilled (fst (successData r2)),
         emit (Fetch req # snd (successData r2)) (?s1\<lparr>world := w2\<rparr>))"
    by (rule request_success_response [where fetch = fetch and s = ?s1, OF b]) (use f2 s2 in \<open>simp_all add: emit_def ok_def\<close>)
  finally show ?thesis using s2 j by (simp add: successData_def emit_def)
qed

lemma request_scripted_rounds:
  assumes b: "build_request this method path params t = Inr req"
    and r: "status r \<noteq> 429"
  shows "\<forall>x\<in>set rs. status x = 429 \<Longrightarrow>
   \<exists>out es. request scripted this method path params t
               \<lparr>world = map FetchResolved rs @ FetchResolved r # rest, trace = tr\<rparr>
             = Some (out, \<lparr>world = rest, trace = tr @ es\<rparr>)
        \<and> exchanges es = length rs + 1
        \<and> (\<forall>q. Fetch q \<in> set es \<longrightarrow> q = req)"
proof (induction rs arbitrary: tr)
  case Nil
  show ?case
  proof (cases "ok r")
    case True
    have "request scripted this method path params t \<lparr>world = FetchResolved r # rest, trace = tr\<rparr>
        = Some (Fulfilled (fst (successData r)),
             emit (Fetch req # snd (successData r)) (\<lparr>world = FetchResolved r # rest, trace = tr\<rparr>\<lparr>world := rest\<rparr>))"
      by (rule request_success_response [where fetch = scripted, OF b _ True]) (simp add: scripted_def)
    then show ?thesis
      by (auto simp: emit_def exchanges_def successData_def split: option.splits)
  next
    case False
    have "request scripted this method path params t \<lparr>world = FetchResolved r # rest, trace = tr\<rparr>
        = Some (Rejected (EsaApiError (status r) (fst (errorData r))),
             emit (Fetch req # snd (errorData r)) (\<lparr>world = FetchResolved r # rest, trace = tr\<rparr>\<lparr>world := rest\<rparr>))"
      by (rule request_error_response [where fetch = scripted, OF b _ r False]) (simp add: scripted_def)
    then show ?thesis
      by (auto simp: emit_def exchanges_def errorData_def split: option.splits)
  qed
next
  case (Cons x xs)
  let ?ev = "[Fetch req, ConsoleWarn (rate_limit_warning (retryAfter x)),
            SetTimeout (num_times (retryAfter x) 1000)]"
  have x: "status x = 429" and xs: "\<forall>x\<in>set xs. status x = 429" using Cons.prems by simp_all
  have eq: "request scripted this method path params t
          \<lparr>world = map FetchResolved (x # xs) @ FetchResolved r # rest, trace = tr\<rparr>
        = request scripted this method path params t
          \<lparr>world = map FetchResolved xs @ FetchResolved r # rest, trace = tr @ ?ev\<rparr>"
    using request_rate_limited [OF b _ x, of scripted
        "\<lparr>world = map FetchResolved (x # xs) @ FetchResolved r # rest, trace = tr\<rparr>"
        "map FetchResolved xs @ FetchResolved r # rest"]
    by (simp add: scripted_def emit_def)
  from Cons.IH [OF xs, of "tr @ ?ev"] obtain out es where
    1: "request scripted this method path params t
          \<lparr>world = map FetchResolved xs @ FetchResolved r # rest, trace = tr @ ?ev\<rparr>
        = Some (out, \<lparr>world = rest, trace = (tr @ ?ev) @ es\<rparr>)"
    and 2: "exchanges es = length xs + 1" and 3: "\<forall>q. Fetch q \<in> set es \<longrightarrow> q = req"
    by blast
  show ?case
    apply (rule exI [of _ out], rule exI [of _ "?ev @ es"])
    using eq 1 2 3 by (auto simp: exchanges_def)
qed


lemma request_scripted_429s:
  assumes b: "build_request this method path params t = Inr req"
  shows "\<forall>x\<in>set rs. status x = 429 \<Longrightarrow>
     request scripted this method path params t
       \<lparr>world = map FetchResolved rs @ rest, trace = tr\<rparr>
   = request scripted this method path params t
       \<lparr>world = rest, trace = tr @ concat (map (retry_round req) rs)\<rparr>"
proof (induction rs arbitrary: tr)
  case Nil
  show ?case by simp
next
  case (Cons x xs)
  have x: "status x = 429" and xs: "\<forall>x\<in>set xs. status x = 429" using Cons.prems by simp_all
  have "request scripted this method path params t
          \<lparr>world = map FetchResolved (x # xs) @ rest, trace = tr\<rparr>
        = request scripted this method path params t
          \<lparr>world = map FetchResolved xs @ rest, trace = tr @ retry_round req x\<rparr>"
    using request_rate_limited [OF b _ x, of scripted
        "\<lparr>world = map FetchResolved (x # xs) @ rest, trace = tr\<rparr>"
        "map FetchResolved xs @ rest"]
    by (simp add: scripted_def emit_def retry_round_def)
  also have "\<dots> = request scripted this method path params t
       \<lparr>world = rest, trace = (tr @ retry_round req x) @ concat (map (retry_round req) xs)\<rparr>"
    by (rule Cons.IH [OF xs])
  finally show ?case by simp
qed

lemma request_no_content:
  assumes "build_request this method path params t = Inr req"
    and "fetch (world s) req = (FetchResolved r, w')" and "status r = 204"
  shows "request fetch this method path params t s =
      Some (Fulfilled JNull, \<lparr>world = w', trace = trace s @ [Fetch req]\<rparr>)"
  using request_success_response [where fetch = fetch and s = s, OF assms(1,2)] assms(3)
  by (simp add: ok_def successData_def emit_def)

lemma request_scripted_no_content:
  assumes "build_request this method path params t = Inr req"
    and "\<forall>x\<in>set rs. status x = 429" and "status r = 204"
  shows "request scripted this method path params t
        \<lparr>world = map FetchResolved rs @ FetchResolved r # rest, trace = tr\<rparr>
      = Some (Fulfilled JNull,
              \<lparr>world = rest, trace = tr @ concat (map (retry_round req) rs) @ [Fetch req]\<rparr>)"
  using request_scripted_429s [OF assms(1,2), of "FetchResolved r # rest" tr]
    request_no_content [where fetch = scripted and r = r and w' = rest
           and s = "\<lparr>world = FetchResolved r # rest, trace = tr @ concat (map (retry_round req) rs)\<rparr>",
         OF assms(1) _ assms(3)]
  by (simp add: scripted_def)

lemma retry_rounds_read_nothing:
  "ReadJson \<notin> set (concat (map (retry_round req) rs) @ [Fetch req])
   \<and> ReadText \<notin> set (concat (map (retry_round req) rs) @ [Fetch req])"
  by (auto simp: retry_round_def)

lemma request_api_error:
  assumes "build_request this method path params t = Inr req"
    and "fetch (world s) req = (FetchResolved r, w')"
    and "status r \<noteq> 429" and "\<not> (200 \<le> status r \<and> status r \<le> 299)"
  shows "request fetch this method path params t s =
      Some (Rejected (EsaApiError (status r)
              (case json_result r of
                 Some d \<Rightarrow> d
               | None \<Rightarrow>
                   (case text_result r of
                      Some txt \<Rightarrow>
                        if txt \<noteq> [] then JObject [(''message'', JString txt)]
                        else JObject [(''message'', JString ''Failed to parse error response'')]
                    | None \<Rightarrow> JObject [(''message'', JString ''Failed to parse error response'')]))),
            \<lparr>world = w',
             trace = trace s @ Fetch req #
               (case json_result r of Some d \<Rightarrow> [ReadJson] | None \<Rightarrow> [ReadJson, ReadText])\<rparr>)"
  using request_error_response [where fetch = fetch and s = s, OF assms(1,2,3)] assms(4)
  by (simp add: ok_def errorData_def emit_def split: option.splits)

lemma warning_60: "rate_limit_warning (Num 60) = ''Rate limit exceeded. Retrying after 60 seconds.''"
  by code_simp

text \<open>The exchange that is answered with another status than 429 settles the call.\<close>

lemma request_settles:
  assumes b: "build_request this method path params t = Inr req"
    and f: "fetch (world s) req = (FetchResolved r, w')" and n: "status r \<noteq> 429"
  shows "request fetch this method path params t s =
         Some (settled_outcome r, \<lparr>world = w', trace = trace s @ Fetch req # settled_reads r\<rparr>)"
proof (cases "ok r")
  case True
  then show ?thesis
    using request_success_response [where fetch = fetch and s = s, OF b f True]
    by (simp add: settled_outcome_def settled_reads_def emit_def)
next
  case False
  then show ?thesis
    using request_error_response [where fetch = fetch and s = s, OF b f n False]
    by (simp add: settled_outcome_def settled_reads_def emit_def)
qed

lemma request_scripted_settles:
  assumes b: "build_request this method path params t = Inr req"
    and a: "\<forall>x\<in>set rs. status x = 429" and n: "status r \<noteq> 429"
  shows "request scripted this method path params t
           \<lparr>world = map FetchResolved rs @ FetchResolved r # rest, trace = tr\<rparr>
         = Some (settled_outcome r,
                 \<lparr>world = rest,
                  trace = tr @ concat (map (retry_round req) rs) @ Fetch req # settled_reads r\<rparr>)"
  using request_scripted_429s [OF b a, of "FetchResolved r # rest" tr]
    request_settles [where fetch = scripted and r = r and w' = rest
       and s = "\<lparr>world = FetchResolved r # rest, trace = tr @ concat (map (retry_round req) rs)\<rparr>",
       OF b _ n]
  by (simp add: scripted_def)

subsection \<open>Building the exchange\<close>

lemma append_params_no_null:
  "\<forall>kv\<in>set kvs. snd kv \<noteq> JNull \<Longrightarrow>
   append_params kvs acc = Inr (acc @ coerced_entries kvs)"
  by (induction kvs acc rule: append_params.induct)
     (auto simp: call_toString_def coerced_entries_def)

lemma append_params_null:
  "(k, JNull) \<in> set kvs \<Longrightarrow>
   append_params kvs acc = Inl (TypeError ''Cannot read properties of null (reading 'toString')'')"
  by (induction kvs acc rule: append_params.induct)
     (auto simp: call_toString_def)

lemma build_request_get_null:
  assumes "toLowerCase method = ''get''" and "(k, JNull) \<in> set kvs"
  shows "build_request this method path (Plain kvs) t =
         Inl (TypeError ''Cannot read properties of null (reading 'toString')'')"
proof -
  have "kvs \<noteq> []" using assms(2) by auto
  then show ?thesis
    using assms(1) append_params_null [OF assms(2), of "[]"]
    by (simp add: build_request_def Object_keys_def Let_def)
qed

lemma build_request_get_query:
  assumes "toLowerCase method = ''get''" and "kvs \<noteq> []" and "\<forall>kv\<in>set kvs. snd kv \<noteq> JNull"
  shows "build_request this method path (Plain kvs) t =
         Inr \<lparr>http_method = method,
              url = baseUrl this @ processedPath this path t @ ''?'' @
                    urlencoded_serialize (coerced_entries kvs),
              headers = default_headers this, body = None\<rparr>"
  using assms(1,2) append_params_no_null [OF assms(3), of "[]"]
  by (simp add: build_request_def Object_keys_def Let_def)

lemma stringify_object:
  "JSON_stringify (JObject kvs) = Some (''{'' @ intercalate '','' (serialize_props kvs) @ ''}'')"
  by (simp add: JSON_stringify_def)

lemma build_request_json_body:
  assumes "toLowerCase method \<noteq> ''get''" and "kvs \<noteq> []"
  shows "build_request this method path (Plain kvs) t =
         Inr \<lparr>http_method = method, url = baseUrl this @ processedPath this path t,
              headers = default_headers this,
              body = Some (TextBody (''{'' @ intercalate '','' (serialize_props kvs) @ ''}''))\<rparr>"
  using assms by (simp add: build_request_def Object_keys_def Let_def stringify_object)

lemma build_request_no_body:
  assumes "toLowerCase method \<noteq> ''get''"
  shows "build_request this method path (Plain []) t =
         Inr \<lparr>http_method = method, url = baseUrl this @ processedPath this path t,
              headers = default_headers this, body = None\<rparr>"
  using assms by (simp add: build_request_def Object_keys_def Let_def)

lemma post_is_not_get: "toLowerCase ''post'' \<noteq> ''get''" by code_simp
lemma patch_is_not_get: "toLowerCase ''patch'' \<noteq> ''get''" by code_simp

subsection \<open>The query string can be read back\<close>

lemma percent_decode_plain:
  "c \<noteq> CHR ''%'' \<Longrightarrow> percent_decode (c # rest) = c # percent_decode rest"
  by (cases "(c # rest)" rule: percent_decode.cases) auto

lemma hex_value_hex_upper: "d < 16 \<Longrightarrow> hex_value (hex_upper d) = Some d"
  by (auto simp: hex_value_def hex_upper_def Let_def)

lemma of_char_hex_upper:
  "d < 16 \<Longrightarrow> (of_char (hex_upper d) :: nat) = (if d < 10 then 48 + d else 55 + d)"
  by (simp add: hex_upper_def)

lemma hex_upper_not_special:
  assumes "d < 16"
  shows "hex_upper d \<noteq> CHR ''+''" and "hex_upper d \<noteq> CHR ''&''" and "hex_upper d \<noteq> CHR ''=''"
proof -
  have n: "(of_char (hex_upper d) :: nat) \<in> {48..57} \<union> {65..70}"
    using assms by (auto simp: of_char_hex_upper)
  show "hex_upper d \<noteq> CHR ''+''"
  proof
    assume "hex_upper d = CHR ''+''"
    then have "(of_char (hex_upper d) :: nat) = 43" by simp
    with n show False by auto
  qed
  show "hex_upper d \<noteq> CHR ''&''"
  proof
    assume "hex_upper d = CHR ''&''"
    then have "(of_char (hex_upper d) :: nat) = 38" by simp
    with n show False by auto
  qed
  show "hex_upper d \<noteq> CHR ''=''"
  proof
    assume "hex_upper d = CHR ''=''"
    then have "(of_char (hex_upper d) :: nat) = 61" by simp
    with n show False by auto
  qed
qed

lemma plain_not_special:
  assumes "urlencoded_plain c"
  shows "c \<noteq> CHR ''+''" and "c \<noteq> CHR ''&''" and "c \<noteq> CHR ''=''" and "c \<noteq> CHR ''%''"
  using assms by (auto simp: urlencoded_plain_def Let_def)

lemma of_char_div_16: "(of_char (c :: char) :: nat) div 16 < 16"
proof -
  have "(of_char c :: nat) < 256" by (rule nat_of_char_less_256)
  then have "(of_char c :: nat) < 16 * 16" by simp
  then show ?thesis by (rule less_mult_imp_div_less)
qed

lemma urlencode_byte_chars:
  "x \<in> set (urlencode_byte c) \<Longrightarrow> x \<noteq> CHR ''&'' \<and> x \<noteq> CHR ''=''"
proof -
  have d1: "(of_char c :: nat) div 16 < 16" by (rule of_char_div_16)
  have d2: "(of_char c :: nat) mod 16 < 16" by simp
  assume "x \<in> set (urlencode_byte c)"
  then show ?thesis
    using hex_upper_not_special [OF d1] hex_upper_not_special [OF d2] plain_not_special [of c]
    by (auto simp: urlencode_byte_def split: if_splits)
qed

lemma urlencode_chars:
  "x \<in> set (urlencode s) \<Longrightarrow> x \<noteq> CHR ''&'' \<and> x \<noteq> CHR ''=''"
  by (auto simp: urlencode_def dest: urlencode_byte_chars)

lemma decode_urlencode_byte:
  "percent_decode (plus_to_space (urlencode_byte c) @ rest) = c # percent_decode rest"
proof -
  let ?n = "of_char c :: nat"
  have d1: "?n div 16 < 16" by (rule of_char_div_16)
  have d2: "?n mod 16 < 16" by simp
  show ?thesis
  proof (cases "c = CHR '' ''")
    case True
    then show ?thesis
      by (simp add: urlencode_byte_def plus_to_space_def percent_decode_plain)
  next
    case sp: False
    show ?thesis
    proof (cases "urlencoded_plain c")
      case True
      then show ?thesis
        using sp plain_not_special [OF True]
        by (simp add: urlencode_byte_def plus_to_space_def percent_decode_plain)
    next
      case False
      have "16 * (?n div 16) + ?n mod 16 = ?n" by simp
      then show ?thesis
        using sp False hex_upper_not_special(1) [OF d1] hex_upper_not_special(1) [OF d2]
        by (simp add: urlencode_byte_def plus_to_space_def hex_value_hex_upper [OF d1]
              hex_value_hex_upper [OF d2])
    qed
  qed
qed

lemma plus_to_space_append: "plus_to_space (a @ b) = plus_to_space a @ plus_to_space b"
  by (simp add: plus_to_space_def)

lemma decode_urlencode: "percent_decode (plus_to_space (urlencode s)) = s"
proof (induction s)
  case Nil
  show ?case by (simp add: urlencode_def plus_to_space_def)
next
  case (Cons c s)
  have "urlencode (c # s) = urlencode_byte c @ urlencode s" by (simp add: urlencode_def)
  then show ?case
    using decode_urlencode_byte [of c "plus_to_space (urlencode s)"] Cons.IH
    by (simp add: plus_to_space_append)
qed

lemma split_on_none: "d \<notin> set x \<Longrightarrow> split_on d x = [x]"
  by (induction x) auto

lemma split_on_first: "d \<notin> set x \<Longrightarrow> split_on d (x @ d # rest) = x # split_on d rest"
  by (induction x) auto

lemma split_on_joined:
  "d \<notin> set x0 \<Longrightarrow> \<forall>x\<in>set xs. d \<notin> set x \<Longrightarrow>
   split_on d (x0 @ concat (map (\<lambda>y. [d] @ y) xs)) = x0 # xs"
proof (induction xs arbitrary: x0)
  case Nil
  then show ?case by (simp add: split_on_none)
next
  case (Cons a xs)
  have "split_on d (x0 @ concat (map (\<lambda>y. [d] @ y) (a # xs)))
      = split_on d (x0 @ d # (a @ concat (map (\<lambda>y. [d] @ y) xs)))" by simp
  also have "\<dots> = x0 # split_on d (a @ concat (map (\<lambda>y. [d] @ y) xs))"
    using Cons.prems by (simp add: split_on_first)
  also have "split_on d (a @ concat (map (\<lambda>y. [d] @ y) xs)) = a # xs"
    using Cons.prems by (intro Cons.IH) auto
  finally show ?case .
qed

lemma split_on_intercalate:
  "xs \<noteq> [] \<Longrightarrow> \<forall>x\<in>set xs. d \<notin> set x \<Longrightarrow> split_on d (intercalate [d] xs) = xs"
  by (cases xs) (simp_all add: intercalate_def split_on_joined)

lemma parse_pair:
  "(let name = takeWhile (\<lambda>c. c \<noteq> CHR ''='') (urlencode k @ ''='' @ urlencode v);
        val = drop (length name + 1) (urlencode k @ ''='' @ urlencode v)
    in (percent_decode (plus_to_space name), percent_decode (plus_to_space val))) = (k, v)"
proof -
  have "takeWhile (\<lambda>c. c \<noteq> CHR ''='') (urlencode k @ ''='' @ urlencode v) = urlencode k"
    using urlencode_chars [of _ k] by (simp add: takeWhile_tail)
  then show ?thesis by (simp add: decode_urlencode)
qed

lemma urlencoded_roundtrip: "urlencoded_parse (urlencoded_serialize q) = q"
proof (cases "q = []")
  case True
  then show ?thesis by (simp add: urlencoded_parse_def urlencoded_serialize_def intercalate_def)
next
  case False
  let ?enc = "\<lambda>(k, v). urlencode k @ ''='' @ urlencode v"
  have no_amp: "\<forall>x\<in>set (map ?enc q). CHR ''&'' \<notin> set x"
    using urlencode_chars by (auto simp: split_def)
  have nonempty: "\<forall>x\<in>set (map ?enc q). x \<noteq> []" by (auto simp: split_def)
  have "split_on (CHR ''&'') (intercalate ''&'' (map ?enc q)) = map ?enc q"
    using False no_amp by (intro split_on_intercalate) simp_all
  then have "split_on (CHR ''&'') (urlencoded_serialize q) = map ?enc q"
    by (simp add: urlencoded_serialize_def)
  moreover have "filter (\<lambda>bytes. bytes \<noteq> []) (map ?enc q) = map ?enc q"
    using nonempty by (simp add: filter_id_conv)
  ultimately show ?thesis
    using parse_pair by (simp add: urlencoded_parse_def o_def split_def map_idI)
qed

text \<open>The appended text is the query of the URL when the path holds no question mark.\<close>

lemma url_query_appended:
  assumes "CHR ''?'' \<notin> set pre" and "CHR ''#'' \<notin> set q"
  shows "url_query (pre @ ''?'' @ q) = q"
proof -
  have "dropWhile (\<lambda>c. c \<noteq> CHR ''?'') (pre @ ''?'' @ q) = ''?'' @ q"
    using assms(1) by (auto simp: dropWhile_append3)
  moreover have "takeWhile (\<lambda>c. c \<noteq> CHR ''#'') q = q"
    using assms(2) by (auto simp: takeWhile_eq_all_conv)
  ultimately show ?thesis by (simp add: url_query_def)
qed

lemma hex_upper_not_hash:
  assumes "d < 16"
  shows "hex_upper d \<noteq> CHR ''#''"
proof
  assume "hex_upper d = CHR ''#''"
  then have "(of_char (hex_upper d) :: nat) = 35" by simp
  with assms show False by (auto simp: of_char_hex_upper split: if_splits)
qed

lemma urlencode_byte_no_hash: "CHR ''#'' \<notin> set (urlencode_byte c)"
proof -
  have d1: "(of_char c :: nat) div 16 < 16" by (rule of_char_div_16)
  have d2: "(of_char c :: nat) mod 16 < 16" by simp
  have "urlencoded_plain c \<Longrightarrow> c \<noteq> CHR ''#''"
    by (auto simp: urlencoded_plain_def Let_def)
  then show ?thesis
    using hex_upper_not_hash [OF d1] hex_upper_not_hash [OF d2]
    by (auto simp: urlencode_byte_def)
qed

lemma urlencode_no_hash: "CHR ''#'' \<notin> set (urlencode s)"
  using urlencode_byte_no_hash by (auto simp: urlencode_def)

lemma intercalate_set:
  "x \<in> set (intercalate sep xs) \<Longrightarrow> x \<in> set sep \<or> (\<exists>y\<in>set xs. x \<in> set y)"
  by (cases xs) (auto simp: intercalate_def split: if_splits)

lemma urlencoded_serialize_no_hash: "CHR ''#'' \<notin> set (urlencoded_serialize q)"
proof
  assume "CHR ''#'' \<in> set (urlencoded_serialize q)"
  then have "CHR ''#'' \<in> set ''&'' \<or>
     (\<exists>y\<in>set (map (\<lambda>(k, v). urlencode k @ ''='' @ urlencode v) q). CHR ''#'' \<in> set y)"
    unfolding urlencoded_serialize_def by (rule intercalate_set)
  then show False using urlencode_no_hash by (auto simp: split_def)
qed

subsection \<open>Team resolution and the path\<close>

lemma GetSubstitution_no_dollar:
  "CHR ''$'' \<notin> set repl \<Longrightarrow> GetSubstitution m b a repl = repl"
  by (induction m b a repl rule: GetSubstitution.induct) auto

text \<open>\<open>indexOf\<close> finds an occurrence of the pattern, and the first one.\<close>

lemma indexOf_first_occurrence:
  "indexOf s pat = Some i \<Longrightarrow>
   take (length pat) (drop i s) = pat \<and> (\<forall>j<i. take (length pat) (drop j s) \<noteq> pat)"
proof (induction s arbitrary: i)
  case Nil
  then show ?case by (auto split: if_splits)
next
  case (Cons c cs)
  show ?case
  proof (cases "take (length pat) (c # cs) = pat")
    case True
    with Cons.prems show ?thesis by simp
  next
    case False
    with Cons.prems obtain k where k: "indexOf cs pat = Some k" and i: "i = Suc k"
      by auto
    from Cons.IH [OF k] have 1: "take (length pat) (drop k cs) = pat"
      and 2: "\<forall>j<k. take (length pat) (drop j cs) \<noteq> pat" by simp_all
    have "take (length pat) (drop j (c # cs)) \<noteq> pat" if "j < Suc k" for j
    proof (cases j)
      case 0
      with False show ?thesis by simp
    next
      case (Suc j')
      with that 2 show ?thesis by simp
    qed
    with 1 i show ?thesis by simp
  qed
qed

lemma indexOf_after_prefix:
  "CHR '':'' \<notin> set pre \<Longrightarrow>
   indexOf (pre @ '':team_name'' @ suf) '':team_name'' = Some (length pre)"
  by (induction pre) auto

lemma js_replace_placeholder:
  assumes "indexOf (pre @ '':team_name'' @ suf) '':team_name'' = Some (length pre)"
    and "CHR ''$'' \<notin> set team"
  shows "js_replace (pre @ '':team_name'' @ suf) '':team_name'' team = pre @ team @ suf"
  using assms(1) GetSubstitution_no_dollar [OF assms(2)]
  by (simp add: js_replace_def Let_def)

lemma processedPath_substituted:
  assumes "effective_team this t = Some team" and "team \<noteq> []"
    and "CHR ''$'' \<notin> set team"
    and "indexOf (pre @ '':team_name'' @ suf) '':team_name'' = Some (length pre)"
  shows "processedPath this (pre @ '':team_name'' @ suf) t = pre @ team @ suf"
  using assms(1,2) js_replace_placeholder [OF assms(4,3)]
  by (simp add: processedPath_def truthy_def Let_def)

lemma processedPath_unsubstituted:
  "\<not> truthy (effective_team this t) \<Longrightarrow> processedPath this path t = path"
  by (simp add: processedPath_def Let_def)

lemma build_request_url_prefix:
  "build_request this method path params t = Inr req \<Longrightarrow>
   take (length (baseUrl this @ processedPath this path t)) (url req)
     = baseUrl this @ processedPath this path t"
  by (auto simp: build_request_def Let_def split: if_splits sum.splits payload.splits)

lemma getTeam_request:
  "getTeam fetch this t s = request fetch this ''get'' ''/teams/:team_name'' (Plain []) t s"
  by (simp add: getTeam_def get_def)

lemma acme_path: "processedPath this ''/teams/:team_name'' (Some ''acme'') = ''/teams/acme''"
proof -
  have e: "effective_team this (Some ''acme'') = Some ''acme''"
    by (simp add: effective_team_def js_or_def truthy_def)
  have i: "indexOf (''/teams/'' @ '':team_name'' @ []) '':team_name'' = Some (length ''/teams/'')"
    by (rule indexOf_after_prefix) simp
  have "processedPath this (''/teams/'' @ '':team_name'' @ []) (Some ''acme'') = ''/teams/'' @ ''acme'' @ []"
    by (rule processedPath_substituted [OF e _ _ i]) simp_all
  then show ?thesis by simp
qed

lemma getTeam_acme_request:
  "build_request this ''get'' ''/teams/:team_name'' (Plain []) (Some ''acme'') =
     Inr \<lparr>http_method = ''get'', url = baseUrl this @ ''/teams/acme'',
          headers = default_headers this, body = None\<rparr>"
  by (simp add: build_request_def Object_keys_def Let_def acme_path)

text \<open>
  The replacement string of \<^verbatim>\<open>replace\<close> is a pattern: a team name holding
  \<^verbatim>\<open>$$\<close> or \<^verbatim>\<open>$&\<close> is not inserted as it is.
\<close>

lemma replacement_patterns_expanded:
  "js_replace ''/teams/:team_name'' '':team_name'' ''a$$b'' = ''/teams/a$b''
   \<and> js_replace ''/teams/:team_name'' '':team_name'' ''a$&b'' = ''/teams/a:team_nameb''"
  by code_simp

subsection \<open>The methods that wrap their parameters\<close>

lemma createPost_request:
  "createPost fetch this params t s =
     request fetch this ''post'' ''/teams/:team_name/posts'' (Plain [(''post'', JObject params)]) t s"
  by (simp add: createPost_def post_def)

lemma updatePost_request:
  "updatePost fetch this n params t s =
     request fetch this ''patch'' (''/teams/:team_name/posts/'' @ num_to_string n)
       (Plain [(''post'', JObject params)]) t s"
  by (simp add: updatePost_def patch_def)

lemma serialize_props_append:
  "serialize_props (kvs @ kvs') = serialize_props kvs @ serialize_props kvs'"
  by (induction kvs) simp_all

lemma wrapped_post_json:
  "''{'' @ intercalate '','' (serialize_props [(''post'', JObject params)]) @ ''}''
   = ''{'' @ QuoteJSONString ''post'' @ '':{'' @ intercalate '','' (serialize_props params) @ ''}}''"
  by (simp add: intercalate_def)

subsection \<open>What the call hands to the transport\<close>

text \<open>
  The exchanges of a settled call, for the waits of 60 seconds, the query of a GET call,
  the path of the team and the body of the other verbs.
\<close>

lemma retryAfter_default:
  assumes "headers_get (response_headers r) ''retry-after'' = None
     \<or> headers_get (response_headers r) ''retry-after'' = Some []"
  shows "retryAfter r = Num 60"
proof -
  from assms have "js_or (headers_get (response_headers r) ''retry-after'') (Some ''60'') = Some ''60''"
    by (auto simp: js_or_def truthy_def)
  moreover have "parseInt ''60'' = Num 60" by code_simp
  ultimately show ?thesis by (simp add: retryAfter_def)
qed

lemma retry_round_default:
  assumes "headers_get (response_headers r) ''retry-after'' = None
     \<or> headers_get (response_headers r) ''retry-after'' = Some []"
  shows "retry_round req r =
     [Fetch req, ConsoleWarn ''Rate limit exceeded. Retrying after 60 seconds.'', SetTimeout (Num 60000)]"
  by (simp add: retry_round_def retryAfter_default [OF assms] warning_60 num_times_def)

lemma retry_rounds_default:
  "\<forall>x\<in>set rs. headers_get (response_headers x) ''retry-after'' = None
       \<or> headers_get (response_headers x) ''retry-after'' = Some [] \<Longrightarrow>
   concat (map (retry_round req) rs) =
   concat (replicate (length rs)
     [Fetch req, ConsoleWarn ''Rate limit exceeded. Retrying after 60 seconds.'', SetTimeout (Num 60000)])"
  by (induction rs) (simp_all add: retry_round_default)

lemma request_default_wait_settles:
  assumes b: "build_request this method path params t = Inr req"
    and f1: "fetch (world s) req = (FetchResolved r1, w1)" and s1: "status r1 = 429"
    and h: "headers_get (response_headers r1) ''retry-after'' = None
       \<or> headers_get (response_headers r1) ''retry-after'' = Some []"
    and f2: "fetch w1 req = (FetchResolved r2, w2)" and s2: "status r2 \<noteq> 429"
  shows "request fetch this method path params t s =
         Some (settled_outcome r2,
               \<lparr>world = w2,
                trace = trace s @
                  [Fetch req, ConsoleWarn ''Rate limit exceeded. Retrying after 60 seconds.'',
                   SetTimeout (Num 60000)] @ Fetch req # settled_reads r2\<rparr>)"
proof -
  let ?s1 = "emit [Fetch req, ConsoleWarn (rate_limit_warning (retryAfter r1)),
            SetTimeout (num_times (retryAfter r1) 1000)] (s\<lparr>world := w1\<rparr>)"
  have "request fetch this method path params t s = request fetch this method path params t ?s1"
    by (rule request_rate_limited [where fetch = fetch and s = s, OF b f1 s1])
  also have "\<dots> = Some (settled_outcome r2,
       \<lparr>world = w2, trace = trace ?s1 @ Fetch req # settled_reads r2\<rparr>)"
    by (rule request_settles [where fetch = fetch and s = ?s1, OF b _ s2])
       (use f2 in \<open>simp add: emit_def\<close>)
  finally show ?thesis
    by (simp add: emit_def retryAfter_default [OF h] warning_60 num_times_def)
qed

lemma request_scripted_default_waits:
  assumes b: "build_request this method path params t = Inr req"
    and a: "\<forall>x\<in>set rs. status x = 429"
    and h: "\<forall>x\<in>set rs. headers_get (response_headers x) ''retry-after'' = None
       \<or> headers_get (response_headers x) ''retry-after'' = Some []"
    and n: "status r \<noteq> 429"
  shows "request scripted this method path params t
           \<lparr>world = map FetchResolved rs @ FetchResolved r # rest, trace = tr\<rparr>
         = Some (settled_outcome r,
                 \<lparr>world = rest,
                  trace = tr @ concat (replicate (length rs)
                     [Fetch req, ConsoleWarn ''Rate limit exceeded. Retrying after 60 seconds.'',
                      SetTimeout (Num 60000)])
                    @ Fetch req # settled_reads r\<rparr>)"
  using request_scripted_settles [OF b a n, of rest tr] retry_rounds_default [OF h, of req]
  by simp

lemma request_get_query_settles:
  assumes g: "toLowerCase method = ''get''" and ne: "kvs \<noteq> []"
    and nn: "\<forall>kv\<in>set kvs. snd kv \<noteq> JNull"
    and f: "fetch (world s)
              \<lparr>http_method = method,
               url = baseUrl this @ processedPath this path t @ ''?'' @
                     urlencoded_serialize (coerced_entries kvs),
               headers = default_headers this, body = None\<rparr> = (FetchResolved r, w')"
    and n: "status r \<noteq> 429"
  shows "request fetch this method path (Plain kvs) t s =
         Some (settled_outcome r,
               \<lparr>world = w',
                trace = trace s @
                  Fetch \<lparr>http_method = method,
                         url = baseUrl this @ processedPath this path t @ ''?'' @
                               urlencoded_serialize (coerced_entries kvs),
                         headers = default_headers this, body = None\<rparr>
                  # settled_reads r\<rparr>)"
  by (rule request_settles [where fetch = fetch and s = s,
        OF build_request_get_query [OF g ne nn] f n])

lemma request_scripted_get_query_settles:
  assumes g: "toLowerCase method = ''get''" and ne: "kvs \<noteq> []"
    and nn: "\<forall>kv\<in>set kvs. snd kv \<noteq> JNull"
    and a: "\<forall>x\<in>set rs. status x = 429" and n: "status r \<noteq> 429"
  shows "request scripted this method path (Plain kvs) t
           \<lparr>world = map FetchResolved rs @ FetchResolved r # rest, trace = tr\<rparr>
         = Some (settled_outcome r,
             \<lparr>world = rest,
              trace = tr
                @ concat (map (retry_round
                     \<lparr>http_method = method,
                      url = baseUrl this @ processedPath this path t @ ''?'' @
                            urlencoded_serialize (coerced_entries kvs),
                      headers = default_headers this, body = None\<rparr>) rs)
                @ Fetch \<lparr>http_method = method,
                         url = baseUrl this @ processedPath this path t @ ''?'' @
                               urlencoded_serialize (coerced_entries kvs),
                         headers = default_headers this, body = None\<rparr>
                  # settled_reads r\<rparr>)"
  by (rule request_scripted_settles [OF build_request_get_query [OF g ne nn] a n])

lemma get_url_query:
  assumes "CHR ''?'' \<notin> set (baseUrl this @ processedPath this path t)"
  shows "url_query (baseUrl this @ processedPath this path t @ ''?'' @
                    urlencoded_serialize (coerced_entries kvs))
         = urlencoded_serialize (coerced_entries kvs)"
  using url_query_appended [OF assms urlencoded_serialize_no_hash, of "coerced_entries kvs"]
  by simp

lemma get_url_query_parsed:
  assumes "CHR ''?'' \<notin> set (baseUrl this @ processedPath this path t)"
  shows "urlencoded_parse
           (url_query (baseUrl this @ processedPath this path t @ ''?'' @
                       urlencoded_serialize (coerced_entries kvs)))
         = map (\<lambda>kv. (fst kv, ToString (snd kv))) (filter (\<lambda>kv. snd kv \<noteq> JUndefined) kvs)"
  by (simp only: get_url_query [OF assms] urlencoded_roundtrip) (simp add: coerced_entries_def)

lemma build_request_empty:
  "build_request this method path (Plain []) t =
     Inr \<lparr>http_method = method, url = baseUrl this @ processedPath this path t,
          headers = default_headers this, body = None\<rparr>"
  by (simp add: build_request_def Object_keys_def Let_def)

lemma request_empty_settles:
  assumes f: "fetch (world s)
                \<lparr>http_method = method, url = baseUrl this @ processedPath this path t,
                 headers = default_headers this, body = None\<rparr> = (FetchResolved r, w')"
    and n: "status r \<noteq> 429"
  shows "request fetch this method path (Plain []) t s =
         Some (settled_outcome r,
               \<lparr>world = w',
                trace = trace s @
                  Fetch \<lparr>http_method = method, url = baseUrl this @ processedPath this path t,
                         headers = default_headers this, body = None\<rparr>
                  # settled_reads r\<rparr>)"
  by (rule request_settles [where fetch = fetch and s = s, OF build_request_empty f n])

lemma request_substituted_settles:
  assumes e: "effective_team this t = Some team" and ne: "team \<noteq> []"
    and d: "CHR ''$'' \<notin> set team"
    and i: "indexOf (pre @ '':team_name'' @ suf) '':team_name'' = Some (length pre)"
    and f: "fetch (world s)
                \<lparr>http_method = method, url = baseUrl this @ pre @ team @ suf,
                 headers = default_headers this, body = None\<rparr> = (FetchResolved r, w')"
    and n: "status r \<noteq> 429"
  shows "request fetch this method (pre @ '':team_name'' @ suf) (Plain []) t s =
         Some (settled_outcome r,
               \<lparr>world = w',
                trace = trace s @
                  Fetch \<lparr>http_method = method, url = baseUrl this @ pre @ team @ suf,
                         headers = default_headers this, body = None\<rparr>
                  # settled_reads r\<rparr>)"
proof -
  have pp: "processedPath this (pre @ '':team_name'' @ suf) t = pre @ team @ suf"
    by (rule processedPath_substituted [OF e ne d i])
  have b: "build_request this method (pre @ '':team_name'' @ suf) (Plain []) t =
     Inr \<lparr>http_method = method, url = baseUrl this @ pre @ team @ suf,
          headers = default_headers this, body = None\<rparr>"
    by (simp only: build_request_empty pp)
  show ?thesis
    by (rule request_settles [where fetch = fetch and s = s, OF b f n])
qed

lemma request_unsubstituted_settles:
  assumes e: "\<not> truthy (effective_team this t)"
    and f: "fetch (world s)
                \<lparr>http_method = method, url = baseUrl this @ path,
                 headers = default_headers this, body = None\<rparr> = (FetchResolved r, w')"
    and n: "status r \<noteq> 429"
  shows "request fetch this method path (Plain []) t s =
         Some (settled_outcome r,
               \<lparr>world = w',
                trace = trace s @
                  Fetch \<lparr>http_method = method, url = baseUrl this @ path,
                         headers = default_headers this, body = None\<rparr>
                  # settled_reads r\<rparr>)"
proof -
  have pp: "processedPath this path t = path"
    by (rule processedPath_unsubstituted [OF e])
  have b: "build_request this method path (Plain []) t =
     Inr \<lparr>http_method = method, url = baseUrl this @ path,
          headers = default_headers this, body = None\<rparr>"
    by (simp only: build_request_empty pp)
  show ?thesis
    by (rule request_settles [where fetch = fetch and s = s, OF b f n])
qed

lemma getTeam_acme_settles:
  assumes f: "fetch (world s)
                \<lparr>http_method = ''get'', url = baseUrl this @ ''/teams/acme'',
                 headers = default_headers this, body = None\<rparr> = (FetchResolved r, w')"
    and n: "status r \<noteq> 429"
  shows "getTeam fetch this (Some ''acme'') s =
         Some (settled_outcome r,
               \<lparr>world = w',
                trace = trace s @
                  Fetch \<lparr>http_method = ''get'', url = baseUrl this @ ''/teams/acme'',
                         headers = default_headers this, body = None\<rparr>
                  # settled_reads r\<rparr>)"
  unfolding getTeam_request
  by (rule request_settles [where fetch = fetch and s = s, OF getTeam_acme_request f n])

lemma createPost_settles:
  assumes f: "fetch (world s)
          \<lparr>http_method = ''post'', url = baseUrl this @ processedPath this ''/teams/:team_name/posts'' t,
           headers = default_headers this,
           body = Some (TextBody (''{'' @ QuoteJSONString ''post'' @ '':{'' @ intercalate '','' (serialize_props params) @ ''}}''))\<rparr>
          = (FetchResolved r, w')"
    and n: "status r \<noteq> 429"
  shows "createPost fetch this params t s =
        Some (settled_outcome r,
              \<lparr>world = w',
               trace = trace s @
                 Fetch \<lparr>http_method = ''post'', url = baseUrl this @ processedPath this ''/teams/:team_name/posts'' t,
                        headers = default_headers this,
                        body = Some (TextBody (''{'' @ QuoteJSONString ''post'' @ '':{'' @ intercalate '','' (serialize_props params) @ ''}}''))\<rparr>
                 # settled_reads r\<rparr>)"
proof -
  have b: "build_request this ''post'' ''/teams/:team_name/posts'' (Plain [(''post'', JObject params)]) t =
          Inr \<lparr>http_method = ''post'', url = baseUrl this @ processedPath this ''/teams/:team_name/posts'' t,
               headers = default_headers this,
               body = Some (TextBody (''{'' @ QuoteJSONString ''post'' @ '':{'' @ intercalate '','' (serialize_props params) @ ''}}''))\<rparr>"
    using build_request_json_body [OF post_is_not_get, of "[(''post'', JObject params)]"]
    by (simp only: wrapped_post_json) simp
  show ?thesis
    unfolding createPost_request
    by (rule request_settles [where fetch = fetch and s = s, OF b f n])
qed

lemma updatePost_settles:
  assumes f: "fetch (world s)
          \<lparr>http_method = ''patch'', url = baseUrl this @ processedPath this (''/teams/:team_name/posts/'' @ num_to_string n) t,
           headers = default_headers this,
           body = Some (TextBody (''{'' @ QuoteJSONString ''post'' @ '':{'' @ intercalate '','' (serialize_props params) @ ''}}''))\<rparr>
          = (FetchResolved r, w')"
    and nr: "status r \<noteq> 429"
  shows "updatePost fetch this n params t s =
        Some (settled_outcome r,
              \<lparr>world = w',
               trace = trace s @
                 Fetch \<lparr>http_method = ''patch'', url = baseUrl this @ processedPath this (''/teams/:team_name/posts/'' @ num_to_string n) t,
                        headers = default_headers this,
                        body = Some (TextBody (''{'' @ QuoteJSONString ''post'' @ '':{'' @ intercalate '','' (serialize_props params) @ ''}}''))\<rparr>
                 # settled_reads r\<rparr>)"
proof -
  have b: "build_request this ''patch'' (''/teams/:team_name/posts/'' @ num_to_string n) (Plain [(''post'', JObject params)]) t =
          Inr \<lparr>http_method = ''patch'', url = baseUrl this @ processedPath this (''/teams/:team_name/posts/'' @ num_to_string n) t,
               headers = default_headers this,
               body = Some (TextBody (''{'' @ QuoteJSONString ''post'' @ '':{'' @ intercalate '','' (serialize_props params) @ ''}}''))\<rparr>"
    using build_request_json_body [OF patch_is_not_get, of "[(''post'', JObject params)]"]
    by (simp only: wrapped_post_json) simp
  show ?thesis
    unfolding updatePost_request
    by (rule request_settles [where fetch = fetch and s = s, OF b f nr])
qed

section \<open>The claims\<close>

text \<open>
  C1. A 429 is never surfaced as an error, the core waits and re-issues the identical
  exchange once per 429, and a 429 followed by a 200 resolves with the decoded body of the
  second response after exactly two exchanges. In four parts:
  \<^item> no call is rejected with an \<^verbatim>\<open>EsaApiError\<close> of status 429;
  \<^item> a call whose exchange is answered with a 429 is the same call (same transport,
    client, verb, path template, payload and team override) taken up again after the
    warning and the timer, so that it issues the exchange it has just issued;
  \<^item> on the scripted transport, \<open>n\<close> answers of status 429 followed by an answer of
    another status settle the call after exactly \<open>n + 1\<close> exchanges, all of them the
    same request;
  \<^item> a 429 followed by a 200 whose body decodes to \<open>v\<close> fulfils the call with \<open>v\<close>,
    and the trace holds exactly two exchanges.
\<close>

theorem rate_limit_absorbed_by_retry:
  "(\<forall>(fetch :: 'w transport) this method path params t s st d s'.
      request fetch this method path params t s = Some (Rejected (EsaApiError st d), s')
      \<longrightarrow> st \<noteq> 429)
   \<and> (\<forall>(fetch :: 'w transport) this method path params t s req r w'.
      build_request this method path params t = Inr req \<longrightarrow>
      fetch (world s) req = (FetchResolved r, w') \<longrightarrow> status r = 429 \<longrightarrow>
      request fetch this method path params t s =
      request fetch this method path params t
        (emit [Fetch req, ConsoleWarn (rate_limit_warning (retryAfter r)),
               SetTimeout (num_times (retryAfter r) 1000)]
           (s\<lparr>world := w'\<rparr>)))
   \<and> (\<forall>this method path params t req rs r rest tr.
      build_request this method path params t = Inr req \<longrightarrow>
      (\<forall>x\<in>set rs. status x = 429) \<longrightarrow> status r \<noteq> 429 \<longrightarrow>
      (\<exists>out es.
         request scripted this method path params t
           \<lparr>world = map FetchResolved rs @ FetchResolved r # rest, trace = tr\<rparr>
         = Some (out, \<lparr>world = rest, trace = tr @ es\<rparr>)
         \<and> exchanges es = length rs + 1
         \<and> (\<forall>q. Fetch q \<in> set es \<longrightarrow> q = req)))
   \<and> (\<forall>(fetch :: 'w transport) this method path params t s req r1 w1 r2 w2 v.
      build_request this method path params t = Inr req \<longrightarrow>
      fetch (world s) req = (FetchResolved r1, w1) \<longrightarrow> status r1 = 429 \<longrightarrow>
      fetch w1 req = (FetchResolved r2, w2) \<longrightarrow> status r2 = 200 \<longrightarrow>
      json_result r2 = Some v \<longrightarrow>
      request fetch this method path params t s =
      Some (Fulfilled v,
            \<lparr>world = w2,
             trace = trace s @ [Fetch req, ConsoleWarn (rate_limit_warning (retryAfter r1)),
                                SetTimeout (num_times (retryAfter r1) 1000),
                                Fetch req, ReadJson]\<rparr>)
      \<and> exchanges [Fetch req, ConsoleWarn (rate_limit_warning (retryAfter r1)),
                    SetTimeout (num_times (retryAfter r1) 1000), Fetch req, ReadJson] = 2)"
  apply (intro conjI allI impI)
  subgoal using request_not_429 by blast
  subgoal by (rule request_rate_limited; assumption)
  subgoal by (rule request_scripted_rounds; assumption)
  subgoal by (rule request_429_then_200; assumption)
  subgoal by (simp add: exchanges_def)
  done

theorem rate_limit_absorbed_by_retry_witness:
  "getPost scripted (new_EsaClient ''test-token'' (Some ''test-team'')) (Num 1) None None
     \<lparr>world = [FetchResolved \<lparr>status = 429, response_headers = [(''retry-after'', ''1'')],
                               json_result = Some (JObject [(''error'', JString ''too_many_requests'')]),
                               text_result = None\<rparr>,
               FetchResolved \<lparr>status = 200, response_headers = [],
                               json_result = Some (JObject [(''success'', JBool True)]),
                               text_result = None\<rparr>],
      trace = []\<rparr>
   = Some (Fulfilled (JObject [(''success'', JBool True)]),
       \<lparr>world = [],
        trace = [Fetch \<lparr>http_method = ''get'', url = ''https://api.esa.io/v1/teams/test-team/posts/1'',
                       headers = [(''Authorization'', ''Bearer test-token''),
                                  (''Content-Type'', ''application/json'')],
                       body = None\<rparr>,
                 ConsoleWarn ''Rate limit exceeded. Retrying after 1 seconds.'',
                 SetTimeout (Num 1000),
                 Fetch \<lparr>http_method = ''get'', url = ''https://api.esa.io/v1/teams/test-team/posts/1'',
                       headers = [(''Authorization'', ''Bearer test-token''),
                                  (''Content-Type'', ''application/json'')],
                       body = None\<rparr>,
                 ReadJson]\<rparr>)"
proof -
  let ?c = "new_EsaClient ''test-token'' (Some ''test-team'')"
  let ?req = "\<lparr>http_method = ''get'', url = ''https://api.esa.io/v1/teams/test-team/posts/1'',
                headers = [(''Authorization'', ''Bearer test-token''),
                           (''Content-Type'', ''application/json'')],
                body = None\<rparr>"
  let ?r1 = "\<lparr>status = 429, response_headers = [(''retry-after'', ''1'')],
               json_result = Some (JObject [(''error'', JString ''too_many_requests'')]),
               text_result = None\<rparr>"
  let ?r2 = "\<lparr>status = 200, response_headers = [],
               json_result = Some (JObject [(''success'', JBool True)]),
               text_result = None\<rparr>"
  let ?s = "\<lparr>world = [FetchResolved ?r1, FetchResolved ?r2], trace = []\<rparr>"
  have b: "build_request ?c ''get'' (''/teams/:team_name/posts/'' @ num_to_string (Num 1))
             (Plain []) None = Inr ?req"
    by code_simp
  have f1: "scripted (world ?s) ?req = (FetchResolved ?r1, [FetchResolved ?r2])"
    by (simp add: scripted_def)
  have f2: "scripted [FetchResolved ?r2] ?req = (FetchResolved ?r2, [])"
    by (simp add: scripted_def)
  have ra: "retryAfter ?r1 = Num 1" by code_simp
  have w: "rate_limit_warning (Num 1) = ''Rate limit exceeded. Retrying after 1 seconds.''"
    by code_simp
  have "request scripted ?c ''get'' (''/teams/:team_name/posts/'' @ num_to_string (Num 1))
          (Plain []) None ?s
        = Some (Fulfilled (JObject [(''success'', JBool True)]),
            \<lparr>world = [],
             trace = trace ?s @ [Fetch ?req, ConsoleWarn (rate_limit_warning (retryAfter ?r1)),
                                SetTimeout (num_times (retryAfter ?r1) 1000),
                                Fetch ?req, ReadJson]\<rparr>)"
    using rate_limit_absorbed_by_retry
      [THEN conjunct2, THEN conjunct2, THEN conjunct2, rule_format,
       where fetch = scripted and s = ?s, OF b f1 _ f2]
    by simp
  then show ?thesis
    by (simp add: getPost_def get_def truthy_def ra w num_times_def)
qed

text \<open>
  C2 (as amended). For every 429 response whose \<^verbatim>\<open>retry-after\<close> header is absent
  or empty, the wait before the retry is 60 seconds. In three parts:
  \<^item> the number of seconds read is 60, and the call is taken up again after the warning
    and a timer of 60000 milliseconds;
  \<^item> when the answer after such a 429 has another status, the call settles on it, and
    its trace holds the exchange, the timer of 60000 milliseconds and the exchange again;
  \<^item> on the scripted transport, a call answered by any number of such 429s and then by
    another status settles, and every one of its retries waited 60000 milliseconds.

  (A header that is present and not empty goes through \<^verbatim>\<open>parseInt\<close>, which has
  no default.)
\<close>

theorem missing_retry_after_waits_60_seconds:
  "(\<forall>(fetch :: 'w transport) this method path params t s req r w'.
      build_request this method path params t = Inr req \<longrightarrow>
      fetch (world s) req = (FetchResolved r, w') \<longrightarrow> status r = 429 \<longrightarrow>
      (headers_get (response_headers r) ''retry-after'' = None
       \<or> headers_get (response_headers r) ''retry-after'' = Some []) \<longrightarrow>
      retryAfter r = Num 60
      \<and> request fetch this method path params t s =
        request fetch this method path params t
          (emit [Fetch req, ConsoleWarn ''Rate limit exceeded. Retrying after 60 seconds.'',
                 SetTimeout (Num 60000)]
             (s\<lparr>world := w'\<rparr>)))
   \<and> (\<forall>(fetch :: 'w transport) this method path params t s req r1 w1 r2 w2.
      build_request this method path params t = Inr req \<longrightarrow>
      fetch (world s) req = (FetchResolved r1, w1) \<longrightarrow> status r1 = 429 \<longrightarrow>
      (headers_get (response_headers r1) ''retry-after'' = None
       \<or> headers_get (response_headers r1) ''retry-after'' = Some []) \<longrightarrow>
      fetch w1 req = (FetchResolved r2, w2) \<longrightarrow> status r2 \<noteq> 429 \<longrightarrow>
      request fetch this method path params t s =
        Some (settled_outcome r2,
              \<lparr>world = w2,
               trace = trace s @
                 [Fetch req, ConsoleWarn ''Rate limit exceeded. Retrying after 60 seconds.'',
                  SetTimeout (Num 60000)] @ Fetch req # settled_reads r2\<rparr>))
   \<and> (\<forall>this method path params t req rs r rest tr.
      build_request this method path params t = Inr req \<longrightarrow>
      (\<forall>x\<in>set rs. status x = 429) \<longrightarrow>
      (\<forall>x\<in>set rs. headers_get (response_headers x) ''retry-after'' = None
          \<or> headers_get (response_headers x) ''retry-after'' = Some []) \<longrightarrow>
      status r \<noteq> 429 \<longrightarrow>
      request scripted this method path params t
        \<lparr>world = map FetchResolved rs @ FetchResolved r # rest, trace = tr\<rparr>
      = Some (settled_outcome r,
              \<lparr>world = rest,
               trace = tr @ concat (replicate (length rs)
                  [Fetch req, ConsoleWarn ''Rate limit exceeded. Retrying after 60 seconds.'',
                   SetTimeout (Num 60000)])
                 @ Fetch req # settled_reads r\<rparr>))"
proof (intro conjI allI impI)
  fix fetch :: "'w transport" and this verb path params t and s :: "'w run"
    and req and r :: response and w'
  assume b: "build_request this verb path params t = Inr req"
    and f: "fetch (world s) req = (FetchResolved r, w')" and st: "status r = 429"
    and h: "headers_get (response_headers r) ''retry-after'' = None
       \<or> headers_get (response_headers r) ''retry-after'' = Some []"
  show ra: "retryAfter r = Num 60" using h by (rule retryAfter_default)
  have "request fetch this verb path params t s =
        request fetch this verb path params t
          (emit [Fetch req, ConsoleWarn (rate_limit_warning (retryAfter r)),
                 SetTimeout (num_times (retryAfter r) 1000)]
             (s\<lparr>world := w'\<rparr>))"
    by (rule request_rate_limited [where fetch = fetch and s = s, OF b f st])
  with ra show "request fetch this verb path params t s =
        request fetch this verb path params t
          (emit [Fetch req, ConsoleWarn ''Rate limit exceeded. Retrying after 60 seconds.'',
                 SetTimeout (Num 60000)]
             (s\<lparr>world := w'\<rparr>))"
    by (simp add: warning_60 num_times_def)
next
  fix fetch :: "'w transport" and this verb path params t and s :: "'w run"
    and req and r1 :: response and w1 and r2 :: response and w2
  assume "build_request this verb path params t = Inr req"
    "fetch (world s) req = (FetchResolved r1, w1)" "status r1 = 429"
    "headers_get (response_headers r1) ''retry-after'' = None
       \<or> headers_get (response_headers r1) ''retry-after'' = Some []"
    "fetch w1 req = (FetchResolved r2, w2)" "status r2 \<noteq> 429"
  then show "request fetch this verb path params t s =
        Some (settled_outcome r2,
              \<lparr>world = w2,
               trace = trace s @
                 [Fetch req, ConsoleWarn ''Rate limit exceeded. Retrying after 60 seconds.'',
                  SetTimeout (Num 60000)] @ Fetch req # settled_reads r2\<rparr>)"
    by (rule request_default_wait_settles)
next
  fix this verb path params t req and rs :: "response list" and r :: response and rest tr
  assume "build_request this verb path params t = Inr req"
    "\<forall>x\<in>set rs. status x = 429"
    "\<forall>x\<in>set rs. headers_get (response_headers x) ''retry-after'' = None
          \<or> headers_get (response_headers x) ''retry-after'' = Some []"
    "status r \<noteq> 429"
  then show "request scripted this verb path params t
        \<lparr>world = map FetchResolved rs @ FetchResolved r # rest, trace = tr\<rparr>
      = Some (settled_outcome r,
              \<lparr>world = rest,
               trace = tr @ concat (replicate (length rs)
                  [Fetch req, ConsoleWarn ''Rate limit exceeded. Retrying after 60 seconds.'',
                   SetTimeout (Num 60000)])
                 @ Fetch req # settled_reads r\<rparr>)"
    by (rule request_scripted_default_waits)
qed

theorem missing_retry_after_waits_60_seconds_witness:
  "request scripted (new_EsaClient ''test-token'' (Some ''test-team'')) ''get''
     ''/teams/:team_name/posts/1'' (Plain []) None
     \<lparr>world = [FetchResolved \<lparr>status = 429, response_headers = [(''Content-Length'', ''0'')],
                               json_result = None, text_result = None\<rparr>,
               FetchResolved \<lparr>status = 200, response_headers = [],
                               json_result = Some (JObject [(''success'', JBool True)]),
                               text_result = None\<rparr>],
      trace = []\<rparr>
   = Some (Fulfilled (JObject [(''success'', JBool True)]),
       \<lparr>world = [],
        trace = [Fetch \<lparr>http_method = ''get'', url = ''https://api.esa.io/v1/teams/test-team/posts/1'',
                       headers = [(''Authorization'', ''Bearer test-token''),
                                  (''Content-Type'', ''application/json'')],
                       body = None\<rparr>,
                 ConsoleWarn ''Rate limit exceeded. Retrying after 60 seconds.'',
                 SetTimeout (Num 60000),
                 Fetch \<lparr>http_method = ''get'', url = ''https://api.esa.io/v1/teams/test-team/posts/1'',
                       headers = [(''Authorization'', ''Bearer test-token''),
                                  (''Content-Type'', ''application/json'')],
                       body = None\<rparr>,
                 ReadJson]\<rparr>)"
proof -
  let ?c = "new_EsaClient ''test-token'' (Some ''test-team'')"
  let ?req = "\<lparr>http_method = ''get'', url = ''https://api.esa.io/v1/teams/test-team/posts/1'',
                headers = [(''Authorization'', ''Bearer test-token''),
                           (''Content-Type'', ''application/json'')],
                body = None\<rparr>"
  let ?r1 = "\<lparr>status = 429, response_headers = [(''Content-Length'', ''0'')],
              json_result = None, text_result = None\<rparr>"
  let ?r2 = "\<lparr>status = 200, response_headers = [],
               json_result = Some (JObject [(''success'', JBool True)]), text_result = None\<rparr>"
  let ?s = "\<lparr>world = [FetchResolved ?r1, FetchResolved ?r2], trace = []\<rparr>"
  have b: "build_request ?c ''get'' ''/teams/:team_name/posts/1'' (Plain []) None = Inr ?req"
    by code_simp
  have f1: "scripted (world ?s) ?req = (FetchResolved ?r1, [FetchResolved ?r2])"
    by (simp add: scripted_def)
  have f2: "scripted [FetchResolved ?r2] ?req = (FetchResolved ?r2, [])"
    by (simp add: scripted_def)
  have h: "headers_get (response_headers ?r1) ''retry-after'' = None
       \<or> headers_get (response_headers ?r1) ''retry-after'' = Some []"
    by code_simp
  have o: "settled_outcome ?r2 = Fulfilled (JObject [(''success'', JBool True)])"
    by (simp add: settled_outcome_def ok_def successData_def)
  have e: "settled_reads ?r2 = [ReadJson]"
    by (simp add: settled_reads_def ok_def successData_def)
  have "request scripted ?c ''get'' ''/teams/:team_name/posts/1'' (Plain []) None ?s =
        Some (settled_outcome ?r2,
              \<lparr>world = [],
               trace = trace ?s @
                 [Fetch ?req, ConsoleWarn ''Rate limit exceeded. Retrying after 60 seconds.'',
                  SetTimeout (Num 60000)] @ Fetch ?req # settled_reads ?r2\<rparr>)"
    using missing_retry_after_waits_60_seconds
      [THEN conjunct2, THEN conjunct1, rule_format,
       where fetch = scripted and s = ?s, OF b f1 _ h f2]
    by simp
  then show ?thesis unfolding o e by simp
qed

text \<open>
  C2 as stated fails: a \<^verbatim>\<open>Retry-After\<close> header holding an HTTP date is present
  and is not an integer; \<^verbatim>\<open>parseInt\<close> reads it as NaN, the warning prints NaN and
  the timer is set with NaN, not with 60000 milliseconds.
\<close>

theorem unparsable_retry_after_counterexample:
  "headers_get (response_headers
       \<lparr>status = 429, response_headers = [(''Retry-After'', ''Wed, 21 Oct 2015 07:28:00 GMT'')],
        json_result = None, text_result = None\<rparr>) ''retry-after''
     = Some ''Wed, 21 Oct 2015 07:28:00 GMT''
   \<and> parseInt ''Wed, 21 Oct 2015 07:28:00 GMT'' = NaN
   \<and> request scripted (new_EsaClient ''test-token'' (Some ''test-team'')) ''get''
     ''/teams/:team_name/posts/1'' (Plain []) None
     \<lparr>world = [FetchResolved
                 \<lparr>status = 429,
                  response_headers = [(''Retry-After'', ''Wed, 21 Oct 2015 07:28:00 GMT'')],
                  json_result = None, text_result = None\<rparr>,
               FetchResolved
                 \<lparr>status = 200, response_headers = [],
                  json_result = Some (JObject [(''success'', JBool True)]), text_result = None\<rparr>],
      trace = []\<rparr>
   = Some (Fulfilled (JObject [(''success'', JBool True)]),
       \<lparr>world = [],
        trace = [Fetch \<lparr>http_method = ''get'', url = ''https://api.esa.io/v1/teams/test-team/posts/1'',
                       headers = [(''Authorization'', ''Bearer test-token''),
                                  (''Content-Type'', ''application/json'')],
                       body = None\<rparr>,
                 ConsoleWarn ''Rate limit exceeded. Retrying after NaN seconds.'',
                 SetTimeout NaN,
                 Fetch \<lparr>http_method = ''get'', url = ''https://api.esa.io/v1/teams/test-team/posts/1'',
                       headers = [(''Authorization'', ''Bearer test-token''),
                                  (''Content-Type'', ''application/json'')],
                       body = None\<rparr>,
                 ReadJson]\<rparr>)
   \<and> SetTimeout NaN \<noteq> SetTimeout (Num 60000)"
proof -
  let ?c = "new_EsaClient ''test-token'' (Some ''test-team'')"
  let ?req = "\<lparr>http_method = ''get'', url = ''https://api.esa.io/v1/teams/test-team/posts/1'',
                headers = [(''Authorization'', ''Bearer test-token''),
                           (''Content-Type'', ''application/json'')],
                body = None\<rparr>"
  let ?r1 = "\<lparr>status = 429,
               response_headers = [(''Retry-After'', ''Wed, 21 Oct 2015 07:28:00 GMT'')],
               json_result = None, text_result = None\<rparr>"
  let ?r2 = "\<lparr>status = 200, response_headers = [],
               json_result = Some (JObject [(''success'', JBool True)]), text_result = None\<rparr>"
  let ?s = "\<lparr>world = [FetchResolved ?r1, FetchResolved ?r2], trace = []\<rparr>"
  have h: "headers_get (response_headers ?r1) ''retry-after'' = Some ''Wed, 21 Oct 2015 07:28:00 GMT''"
    by code_simp
  have p: "parseInt ''Wed, 21 Oct 2015 07:28:00 GMT'' = NaN" by code_simp
  have b: "build_request ?c ''get'' ''/teams/:team_name/posts/1'' (Plain []) None = Inr ?req"
    by code_simp
  have f1: "scripted (world ?s) ?req = (FetchResolved ?r1, [FetchResolved ?r2])"
    by (simp add: scripted_def)
  have f2: "scripted [FetchResolved ?r2] ?req = (FetchResolved ?r2, [])"
    by (simp add: scripted_def)
  have ra: "retryAfter ?r1 = NaN" by code_simp
  have w: "rate_limit_warning NaN = ''Rate limit exceeded. Retrying after NaN seconds.''"
    by code_simp
  have "request scripted ?c ''get'' ''/teams/:team_name/posts/1'' (Plain []) None ?s
        = Some (Fulfilled (JObject [(''success'', JBool True)]),
            \<lparr>world = [],
             trace = trace ?s @ [Fetch ?req, ConsoleWarn (rate_limit_warning (retryAfter ?r1)),
                                SetTimeout (num_times (retryAfter ?r1) 1000),
                                Fetch ?req, ReadJson]\<rparr>)"
    using request_429_then_200 [where fetch = scripted and s = ?s, OF b f1 _ f2]
    by simp
  then show ?thesis
    using h p by (simp add: ra w num_times_def)
qed

text \<open>
  C3 (as amended). For every response whose status is neither 429 nor in 200..299, the
  call is rejected with an \<^verbatim>\<open>EsaApiError\<close> carrying the status and a best-effort
  body: what \<^verbatim>\<open>json()\<close> decodes if it decodes; else the raw text wrapped in a
  \<^verbatim>\<open>message\<close> field if \<^verbatim>\<open>text()\<close> gives a text that is not empty; else the
  fixed message (when the text is empty or cannot be read).
\<close>

theorem error_response_becomes_api_error:
  "\<forall>(fetch :: 'w transport) this method path params t s req r w'.
      build_request this method path params t = Inr req \<longrightarrow>
      fetch (world s) req = (FetchResolved r, w') \<longrightarrow>
      status r \<noteq> 429 \<longrightarrow> \<not> (200 \<le> status r \<and> status r \<le> 299) \<longrightarrow>
      request fetch this method path params t s =
      Some (Rejected (EsaApiError (status r)
              (case json_result r of
                 Some d \<Rightarrow> d
               | None \<Rightarrow>
                   (case text_result r of
                      Some txt \<Rightarrow>
                        if txt \<noteq> [] then JObject [(''message'', JString txt)]
                        else JObject [(''message'', JString ''Failed to parse error response'')]
                    | None \<Rightarrow> JObject [(''message'', JString ''Failed to parse error response'')]))),
            \<lparr>world = w',
             trace = trace s @ Fetch req #
               (case json_result r of Some d \<Rightarrow> [ReadJson] | None \<Rightarrow> [ReadJson, ReadText])\<rparr>)"
proof (intro allI impI)
  fix fetch :: "'w transport" and this verb path params t and s :: "'w run"
    and req and r :: response and w'
  assume b: "build_request this verb path params t = Inr req"
    and f: "fetch (world s) req = (FetchResolved r, w')"
    and n: "status r \<noteq> 429" and e: "\<not> (200 \<le> status r \<and> status r \<le> 299)"
  from e have "\<not> ok r" by (simp add: ok_def)
  then have "request fetch this verb path params t s =
      Some (Rejected (EsaApiError (status r) (fst (errorData r))),
            emit (Fetch req # snd (errorData r)) (s\<lparr>world := w'\<rparr>))"
    by (rule request_error_response [where fetch = fetch and s = s, OF b f n])
  then show "request fetch this verb path params t s =
      Some (Rejected (EsaApiError (status r)
              (case json_result r of
                 Some d \<Rightarrow> d
               | None \<Rightarrow>
                   (case text_result r of
                      Some txt \<Rightarrow>
                        if txt \<noteq> [] then JObject [(''message'', JString txt)]
                        else JObject [(''message'', JString ''Failed to parse error response'')]
                    | None \<Rightarrow> JObject [(''message'', JString ''Failed to parse error response'')]))),
            \<lparr>world = w',
             trace = trace s @ Fetch req #
               (case json_result r of Some d \<Rightarrow> [ReadJson] | None \<Rightarrow> [ReadJson, ReadText])\<rparr>)"
    by (simp add: errorData_def emit_def split: option.splits)
qed

theorem error_response_becomes_api_error_witness:
  "getPost scripted (new_EsaClient ''test-token'' (Some ''test-team'')) (Num 999) None None
     \<lparr>world = [FetchResolved \<lparr>status = 404, response_headers = [],
                 json_result = Some (JObject [(''error'', JString ''not_found''),
                                              (''message'', JString ''Post not found'')]),
                 text_result = None\<rparr>],
      trace = []\<rparr>
   = Some (Rejected (EsaApiError 404 (JObject [(''error'', JString ''not_found''),
                                                (''message'', JString ''Post not found'')])),
       \<lparr>world = [],
        trace = [Fetch \<lparr>http_method = ''get'',
                       url = ''https://api.esa.io/v1/teams/test-team/posts/999'',
                       headers = [(''Authorization'', ''Bearer test-token''),
                                  (''Content-Type'', ''application/json'')],
                       body = None\<rparr>,
                 ReadJson]\<rparr>)"
proof -
  let ?c = "new_EsaClient ''test-token'' (Some ''test-team'')"
  let ?req = "\<lparr>http_method = ''get'',
                url = ''https://api.esa.io/v1/teams/test-team/posts/999'',
                headers = [(''Authorization'', ''Bearer test-token''),
                           (''Content-Type'', ''application/json'')],
                body = None\<rparr>"
  let ?r = "\<lparr>status = 404, response_headers = [],
                 json_result = Some (JObject [(''error'', JString ''not_found''),
                                              (''message'', JString ''Post not found'')]),
                 text_result = None\<rparr>"
  let ?s = "\<lparr>world = [FetchResolved ?r], trace = []\<rparr>"
  have b: "build_request ?c ''get'' (''/teams/:team_name/posts/'' @ num_to_string (Num 999))
             (Plain []) None = Inr ?req"
    by code_simp
  have f: "scripted (world ?s) ?req = (FetchResolved ?r, [])"
    by (simp add: scripted_def)
  have "request scripted ?c ''get'' (''/teams/:team_name/posts/'' @ num_to_string (Num 999))
             (Plain []) None ?s
        = Some (Rejected (EsaApiError 404 (JObject [(''error'', JString ''not_found''),
                                                (''message'', JString ''Post not found'')])),
            \<lparr>world = [], trace = [Fetch ?req, ReadJson]\<rparr>)"
    using error_response_becomes_api_error
      [rule_format, where fetch = scripted and s = ?s, OF b f]
    by simp
  then show ?thesis
    by (simp add: getPost_def get_def truthy_def)
qed

text \<open>
  C3 as stated fails: a 500 response whose body does not decode and whose raw text is
  the empty string gives the fixed message, not the raw text wrapped in a message field.
\<close>

theorem empty_error_text_counterexample:
  "request scripted (new_EsaClient ''test-token'' (Some ''test-team'')) ''get''
     ''/teams/:team_name/posts/999'' (Plain []) None
     \<lparr>world = [FetchResolved \<lparr>status = 500, response_headers = [],
                               json_result = None, text_result = Some ''''\<rparr>],
      trace = []\<rparr>
   = Some (Rejected (EsaApiError 500
                      (JObject [(''message'', JString ''Failed to parse error response'')])),
       \<lparr>world = [],
        trace = [Fetch \<lparr>http_method = ''get'',
                       url = ''https://api.esa.io/v1/teams/test-team/posts/999'',
                       headers = [(''Authorization'', ''Bearer test-token''),
                                  (''Content-Type'', ''application/json'')],
                       body = None\<rparr>,
                 ReadJson, ReadText]\<rparr>)
   \<and> JObject [(''message'', JString ''Failed to parse error response'')]
       \<noteq> JObject [(''message'', JString '''')]"
proof -
  let ?c = "new_EsaClient ''test-token'' (Some ''test-team'')"
  let ?req = "\<lparr>http_method = ''get'',
                url = ''https://api.esa.io/v1/teams/test-team/posts/999'',
                headers = [(''Authorization'', ''Bearer test-token''),
                           (''Content-Type'', ''application/json'')],
                body = None\<rparr>"
  let ?r = "\<lparr>status = 500, response_headers = [], json_result = None, text_result = Some ''''\<rparr>"
  let ?s = "\<lparr>world = [FetchResolved ?r], trace = []\<rparr>"
  have b: "build_request ?c ''get'' ''/teams/:team_name/posts/999'' (Plain []) None = Inr ?req"
    by code_simp
  have f: "scripted (world ?s) ?req = (FetchResolved ?r, [])"
    by (simp add: scripted_def)
  show ?thesis
    using request_api_error [where fetch = scripted and s = ?s, OF b f]
    by simp
qed

text \<open>
  C4 (as amended). For every GET call with a non-empty parameter mapping none of whose
  values is \<^verbatim>\<open>null\<close>, the URL of the exchange holds exactly the entries whose value
  is not \<^verbatim>\<open>undefined\<close>, each value coerced to a string. In four parts:
  \<^item> the URL built is the base, the processed path, a question mark and the
    serialization of these entries, and the URL standard's parser reads the serialization
    back as these entries and nothing else (an absent entry is omitted, not sent empty);
  \<^item> the exchange handed to the transport carries this URL: a call whose answer is not a
    429 settles with exactly this exchange in its trace;
  \<^item> on the scripted transport the same holds after any number of 429s, every retry
    carrying this URL;
  \<^item> when the base and the processed path hold no question mark, the query of this URL
    is the serialization, and the parser reads the query of the URL back as the entries.
\<close>

theorem get_query_holds_defined_entries:
  "(\<forall>this method path kvs t.
     toLowerCase method = ''get'' \<longrightarrow> kvs \<noteq> [] \<longrightarrow> (\<forall>kv\<in>set kvs. snd kv \<noteq> JNull) \<longrightarrow>
     build_request this method path (Plain kvs) t =
       Inr \<lparr>http_method = method,
            url = baseUrl this @ processedPath this path t @ ''?'' @
                  urlencoded_serialize (coerced_entries kvs),
            headers = default_headers this, body = None\<rparr>
     \<and> urlencoded_parse (urlencoded_serialize (coerced_entries kvs)) =
         map (\<lambda>kv. (fst kv, ToString (snd kv))) (filter (\<lambda>kv. snd kv \<noteq> JUndefined) kvs))
   \<and> (\<forall>(fetch :: 'w transport) this method path kvs t s r w'.
     toLowerCase method = ''get'' \<longrightarrow> kvs \<noteq> [] \<longrightarrow> (\<forall>kv\<in>set kvs. snd kv \<noteq> JNull) \<longrightarrow>
     fetch (world s)
       \<lparr>http_method = method,
        url = baseUrl this @ processedPath this path t @ ''?'' @
              urlencoded_serialize (coerced_entries kvs),
        headers = default_headers this, body = None\<rparr> = (FetchResolved r, w') \<longrightarrow>
     status r \<noteq> 429 \<longrightarrow>
     request fetch this method path (Plain kvs) t s =
       Some (settled_outcome r,
             \<lparr>world = w',
              trace = trace s @
                Fetch \<lparr>http_method = method,
                       url = baseUrl this @ processedPath this path t @ ''?'' @
                             urlencoded_serialize (coerced_entries kvs),
                       headers = default_headers this, body = None\<rparr>
                # settled_reads r\<rparr>))
   \<and> (\<forall>this method path kvs t rs r rest tr.
     toLowerCase method = ''get'' \<longrightarrow> kvs \<noteq> [] \<longrightarrow> (\<forall>kv\<in>set kvs. snd kv \<noteq> JNull) \<longrightarrow>
     (\<forall>x\<in>set rs. status x = 429) \<longrightarrow> status r \<noteq> 429 \<longrightarrow>
     request scripted this method path (Plain kvs) t
       \<lparr>world = map FetchResolved rs @ FetchResolved r # rest, trace = tr\<rparr>
     = Some (settled_outcome r,
         \<lparr>world = rest,
          trace = tr
            @ concat (map (retry_round
                 \<lparr>http_method = method,
                  url = baseUrl this @ processedPath this path t @ ''?'' @
                        urlencoded_serialize (coerced_entries kvs),
                  headers = default_headers this, body = None\<rparr>) rs)
            @ Fetch \<lparr>http_method = method,
                     url = baseUrl this @ processedPath this path t @ ''?'' @
                           urlencoded_serialize (coerced_entries kvs),
                     headers = default_headers this, body = None\<rparr>
              # settled_reads r\<rparr>))
   \<and> (\<forall>this path kvs t.
     CHR ''?'' \<notin> set (baseUrl this @ processedPath this path t) \<longrightarrow>
     url_query (baseUrl this @ processedPath this path t @ ''?'' @
                urlencoded_serialize (coerced_entries kvs))
       = urlencoded_serialize (coerced_entries kvs)
     \<and> urlencoded_parse
         (url_query (baseUrl this @ processedPath this path t @ ''?'' @
                     urlencoded_serialize (coerced_entries kvs)))
       = map (\<lambda>kv. (fst kv, ToString (snd kv))) (filter (\<lambda>kv. snd kv \<noteq> JUndefined) kvs))"
  apply (intro conjI allI impI)
  subgoal by (rule build_request_get_query; assumption)
  subgoal by (simp add: urlencoded_roundtrip coerced_entries_def)
  subgoal by (rule request_get_query_settles; assumption)
  subgoal by (rule request_scripted_get_query_settles; assumption)
  subgoal by (rule get_url_query; assumption)
  subgoal by (rule get_url_query_parsed; assumption)
  done

theorem get_query_holds_defined_entries_witness:
  "getPosts scripted (new_EsaClient ''test-token'' (Some ''test-team''))
     (Some [(''q'', JString ''category:general''), (''include'', JUndefined),
            (''sort'', JString ''updated''), (''order'', JString ''desc''),
            (''page'', JNumber (Num 1)), (''per_page'', JNumber (Num 20))]) None
     \<lparr>world = [FetchResolved \<lparr>status = 200, response_headers = [],
                               json_result = Some (JObject [(''posts'', JArray [])]),
                               text_result = None\<rparr>],
      trace = []\<rparr>
   = Some (Fulfilled (JObject [(''posts'', JArray [])]),
       \<lparr>world = [],
        trace = [Fetch \<lparr>http_method = ''get'',
                       url = ''https://api.esa.io/v1/teams/test-team/posts?q=category%3Ageneral&sort=updated&order=desc&page=1&per_page=20'',
                       headers = [(''Authorization'', ''Bearer test-token''),
                                  (''Content-Type'', ''application/json'')],
                       body = None\<rparr>,
                 ReadJson]\<rparr>)
   \<and> urlencoded_parse
       (url_query ''https://api.esa.io/v1/teams/test-team/posts?q=category%3Ageneral&sort=updated&order=desc&page=1&per_page=20'')
     = [(''q'', ''category:general''), (''sort'', ''updated''), (''order'', ''desc''),
        (''page'', ''1''), (''per_page'', ''20'')]"
proof -
  let ?c = "new_EsaClient ''test-token'' (Some ''test-team'')"
  let ?kvs = "[(''q'', JString ''category:general''), (''include'', JUndefined),
             (''sort'', JString ''updated''), (''order'', JString ''desc''),
             (''page'', JNumber (Num 1)), (''per_page'', JNumber (Num 20))]"
  let ?r = "\<lparr>status = 200, response_headers = [],
              json_result = Some (JObject [(''posts'', JArray [])]), text_result = None\<rparr>"
  let ?s = "\<lparr>world = [FetchResolved ?r], trace = []\<rparr>"
  let ?url = "''https://api.esa.io/v1/teams/test-team/posts?q=category%3Ageneral&sort=updated&order=desc&page=1&per_page=20''"
  have g: "toLowerCase ''get'' = ''get''" by code_simp
  have ne: "?kvs \<noteq> []" by simp
  have nn: "\<And>kv. kv \<in> set ?kvs \<Longrightarrow> snd kv \<noteq> JNull" by auto
  have u: "baseUrl ?c @ processedPath ?c ''/teams/:team_name/posts'' None @ ''?'' @
             urlencoded_serialize (coerced_entries ?kvs) = ?url"
    by code_simp
  have h: "default_headers ?c = [(''Authorization'', ''Bearer test-token''),
                     (''Content-Type'', ''application/json'')]"
    by code_simp
  have e: "map (\<lambda>kv. (fst kv, ToString (snd kv))) (filter (\<lambda>kv. snd kv \<noteq> JUndefined) ?kvs)
       = [(''q'', ''category:general''), (''sort'', ''updated''), (''order'', ''desc''),
        (''page'', ''1''), (''per_page'', ''20'')]"
    by code_simp
  have nq: "CHR ''?'' \<notin> set (baseUrl ?c @ processedPath ?c ''/teams/:team_name/posts'' None)"
    by code_simp
  have o: "settled_outcome ?r = Fulfilled (JObject [(''posts'', JArray [])])"
    by (simp add: settled_outcome_def ok_def successData_def)
  have rd: "settled_reads ?r = [ReadJson]"
    by (simp add: settled_reads_def ok_def successData_def)
  have f: "scripted (world ?s)
       \<lparr>http_method = ''get'',
        url = baseUrl ?c @ processedPath ?c ''/teams/:team_name/posts'' None @ ''?'' @
              urlencoded_serialize (coerced_entries ?kvs),
        headers = default_headers ?c, body = None\<rparr> = (FetchResolved ?r, [])"
    by (simp add: scripted_def)
  have 1: "request scripted ?c ''get'' ''/teams/:team_name/posts'' (Plain ?kvs) None ?s =
       Some (settled_outcome ?r,
             \<lparr>world = [],
              trace = trace ?s @
                Fetch \<lparr>http_method = ''get'',
                       url = baseUrl ?c @ processedPath ?c ''/teams/:team_name/posts'' None @ ''?'' @
                             urlencoded_serialize (coerced_entries ?kvs),
                       headers = default_headers ?c, body = None\<rparr>
                # settled_reads ?r\<rparr>)"
    using get_query_holds_defined_entries
      [THEN conjunct2, THEN conjunct1, rule_format, where fetch = scripted and s = ?s,
       OF g ne nn f]
    by simp
  have 2: "urlencoded_parse
         (url_query (baseUrl ?c @ processedPath ?c ''/teams/:team_name/posts'' None @ ''?'' @
                     urlencoded_serialize (coerced_entries ?kvs)))
       = map (\<lambda>kv. (fst kv, ToString (snd kv))) (filter (\<lambda>kv. snd kv \<noteq> JUndefined) ?kvs)"
    by (rule get_query_holds_defined_entries
          [THEN conjunct2, THEN conjunct2, THEN conjunct2, rule_format, OF nq, THEN conjunct2])
  from 1 have "getPosts scripted ?c (Some ?kvs) None ?s =
       Some (Fulfilled (JObject [(''posts'', JArray [])]),
             \<lparr>world = [],
              trace = [Fetch \<lparr>http_method = ''get'', url = ?url,
                       headers = [(''Authorization'', ''Bearer test-token''),
                                  (''Content-Type'', ''application/json'')],
                       body = None\<rparr>, ReadJson]\<rparr>)"
    unfolding u h o rd by (simp add: getPosts_def get_def)
  moreover from 2 have "urlencoded_parse (url_query ?url)
     = [(''q'', ''category:general''), (''sort'', ''updated''), (''order'', ''desc''),
        (''page'', ''1''), (''per_page'', ''20'')]"
    unfolding u e .
  ultimately show ?thesis by (rule conjI)
qed

text \<open>
  C4 as stated fails: a GET call whose mapping holds a \<^verbatim>\<open>null\<close> has no URL at
  all; the call is rejected with a TypeError before any exchange.
\<close>

theorem get_query_null_counterexample:
  "request scripted (new_EsaClient ''test-token'' (Some ''test-team'')) ''get''
     ''/teams/:team_name/posts'' (Plain [(''q'', JNull), (''page'', JNumber (Num 1))]) None
     \<lparr>world = [], trace = []\<rparr>
   = Some (Rejected (TypeError ''Cannot read properties of null (reading 'toString')''),
           \<lparr>world = [], trace = []\<rparr>)"
proof -
  have g: "toLowerCase ''get'' = ''get''" by code_simp
  have "build_request (new_EsaClient ''test-token'' (Some ''test-team'')) ''get''
     ''/teams/:team_name/posts'' (Plain [(''q'', JNull), (''page'', JNumber (Num 1))]) None
     = Inl (TypeError ''Cannot read properties of null (reading 'toString')'')"
    by (rule build_request_get_null [OF g, of "''q''"]) simp
  then show ?thesis by (rule request_build_error)
qed

text \<open>
  C5. For every call whose verb is not GET and whose payload is a plain mapping: a
  non-empty mapping is sent as the body \<^verbatim>\<open>JSON.stringify\<close> gives for it, an object
  text with the properties in their order; an empty mapping sends no body; and
  \<^verbatim>\<open>createPost\<close> and \<^verbatim>\<open>updatePost\<close> send their parameters nested under the
  key \<^verbatim>\<open>post\<close>. The first two parts say what the order and the nesting are: the
  texts of the properties follow the order of the mapping, and the text of a property
  holds the text of its value. The next four are about the exchange that is built. The
  last five are about the exchange that is handed to the transport: a call whose answer
  is not a 429 settles with an exchange in its trace whose body is this JSON text (no
  body for the empty mapping), on the scripted transport every retry after a 429 carries
  the same body, and \<^verbatim>\<open>createPost\<close> and \<^verbatim>\<open>updatePost\<close> send the nested text.
\<close>

theorem non_get_body_is_json:
  "(\<forall>kvs kvs'. serialize_props (kvs @ kvs') = serialize_props kvs @ serialize_props kvs')
   \<and> (\<forall>k v txt. SerializeJSONProperty v = Some txt \<longrightarrow>
        serialize_props [(k, v)] = [QuoteJSONString k @ '':'' @ txt])
   \<and> (\<forall>this method path kvs t.
      toLowerCase method \<noteq> ''get'' \<longrightarrow> kvs \<noteq> [] \<longrightarrow>
      JSON_stringify (JObject kvs) = Some (''{'' @ intercalate '','' (serialize_props kvs) @ ''}'')
      \<and> build_request this method path (Plain kvs) t =
          Inr \<lparr>http_method = method, url = baseUrl this @ processedPath this path t,
               headers = default_headers this,
               body = Some (TextBody (''{'' @ intercalate '','' (serialize_props kvs) @ ''}''))\<rparr>)
   \<and> (\<forall>this method path t.
      toLowerCase method \<noteq> ''get'' \<longrightarrow>
      build_request this method path (Plain []) t =
          Inr \<lparr>http_method = method, url = baseUrl this @ processedPath this path t,
               headers = default_headers this, body = None\<rparr>)
   \<and> (\<forall>(fetch :: 'w transport) this params t s.
      createPost fetch this params t s =
        request fetch this ''post'' ''/teams/:team_name/posts'' (Plain [(''post'', JObject params)]) t s
      \<and> build_request this ''post'' ''/teams/:team_name/posts'' (Plain [(''post'', JObject params)]) t =
          Inr \<lparr>http_method = ''post'',
               url = baseUrl this @ processedPath this ''/teams/:team_name/posts'' t,
               headers = default_headers this,
               body = Some (TextBody (''{'' @ QuoteJSONString ''post'' @ '':{'' @
                                      intercalate '','' (serialize_props params) @ ''}}''))\<rparr>)
   \<and> (\<forall>(fetch :: 'w transport) this n params t s.
      updatePost fetch this n params t s =
        request fetch this ''patch'' (''/teams/:team_name/posts/'' @ num_to_string n)
          (Plain [(''post'', JObject params)]) t s
      \<and> build_request this ''patch'' (''/teams/:team_name/posts/'' @ num_to_string n)
          (Plain [(''post'', JObject params)]) t =
          Inr \<lparr>http_method = ''patch'',
               url = baseUrl this @ processedPath this (''/teams/:team_name/posts/'' @ num_to_string n) t,
               headers = default_headers this,
               body = Some (TextBody (''{'' @ QuoteJSONString ''post'' @ '':{'' @
                                      intercalate '','' (serialize_props params) @ ''}}''))\<rparr>)
   \<and> (\<forall>(fetch :: 'w transport) this method path kvs t s r w'.
      toLowerCase method \<noteq> ''get'' \<longrightarrow> kvs \<noteq> [] \<longrightarrow>
      fetch (world s)
          \<lparr>http_method = method, url = baseUrl this @ processedPath this path t,
           headers = default_headers this, body = Some (TextBody (''{'' @ intercalate '','' (serialize_props kvs) @ ''}''))\<rparr> = (FetchResolved r, w') \<longrightarrow>
      status r \<noteq> 429 \<longrightarrow>
      request fetch this method path (Plain kvs) t s =
        Some (settled_outcome r,
              \<lparr>world = w',
               trace = trace s @
                 Fetch \<lparr>http_method = method, url = baseUrl this @ processedPath this path t,
           headers = default_headers this, body = Some (TextBody (''{'' @ intercalate '','' (serialize_props kvs) @ ''}''))\<rparr>
                 # settled_reads r\<rparr>))
   \<and> (\<forall>this method path kvs t rs r rest tr.
      toLowerCase method \<noteq> ''get'' \<longrightarrow> kvs \<noteq> [] \<longrightarrow>
      (\<forall>x\<in>set rs. status x = 429) \<longrightarrow> status r \<noteq> 429 \<longrightarrow>
      request scripted this method path (Plain kvs) t
        \<lparr>world = map FetchResolved rs @ FetchResolved r # rest, trace = tr\<rparr>
      = Some (settled_outcome r,
          \<lparr>world = rest,
           trace = tr
             @ concat (map (retry_round
                 \<lparr>http_method = method, url = baseUrl this @ processedPath this path t,
           headers = default_headers this, body = Some (TextBody (''{'' @ intercalate '','' (serialize_props kvs) @ ''}''))\<rparr>) rs)
             @ Fetch \<lparr>http_method = method, url = baseUrl this @ processedPath this path t,
           headers = default_headers this, body = Some (TextBody (''{'' @ intercalate '','' (serialize_props kvs) @ ''}''))\<rparr>
               # settled_reads r\<rparr>))
   \<and> (\<forall>(fetch :: 'w transport) this method path t s r w'.
      toLowerCase method \<noteq> ''get'' \<longrightarrow>
      fetch (world s)
          \<lparr>http_method = method, url = baseUrl this @ processedPath this path t,
           headers = default_headers this, body = None\<rparr> = (FetchResolved r, w') \<longrightarrow>
      status r \<noteq> 429 \<longrightarrow>
      request fetch this method path (Plain []) t s =
        Some (settled_outcome r,
              \<lparr>world = w',
               trace = trace s @
                 Fetch \<lparr>http_method = method, url = baseUrl this @ processedPath this path t,
           headers = default_headers this, body = None\<rparr>
                 # settled_reads r\<rparr>))
   \<and> (\<forall>(fetch :: 'w transport) this params t s r w'.
      fetch (world s)
          \<lparr>http_method = ''post'', url = baseUrl this @ processedPath this ''/teams/:team_name/posts'' t,
           headers = default_headers this, body = Some (TextBody (''{'' @ QuoteJSONString ''post'' @ '':{'' @ intercalate '','' (serialize_props params) @ ''}}''))\<rparr> = (FetchResolved r, w') \<longrightarrow>
      status r \<noteq> 429 \<longrightarrow>
      createPost fetch this params t s =
        Some (settled_outcome r,
              \<lparr>world = w',
               trace = trace s @
                 Fetch \<lparr>http_method = ''post'', url = baseUrl this @ processedPath this ''/teams/:team_name/posts'' t,
           headers = default_headers this, body = Some (TextBody (''{'' @ QuoteJSONString ''post'' @ '':{'' @ intercalate '','' (serialize_props params) @ ''}}''))\<rparr>
                 # settled_reads r\<rparr>))
   \<and> (\<forall>(fetch :: 'w transport) this n params t s r w'.
      fetch (world s)
          \<lparr>http_method = ''patch'', url = baseUrl this @ processedPath this (''/teams/:team_name/posts/'' @ num_to_string n) t,
           headers = default_headers this, body = Some (TextBody (''{'' @ QuoteJSONString ''post'' @ '':{'' @ intercalate '','' (serialize_props params) @ ''}}''))\<rparr> = (FetchResolved r, w') \<longrightarrow>
      status r \<noteq> 429 \<longrightarrow>
      updatePost fetch this n params t s =
        Some (settled_outcome r,
              \<lparr>world = w',
               trace = trace s @
                 Fetch \<lparr>http_method = ''patch'', url = baseUrl this @ processedPath this (''/teams/:team_name/posts/'' @ num_to_string n) t,
           headers = default_headers this, body = Some (TextBody (''{'' @ QuoteJSONString ''post'' @ '':{'' @ intercalate '','' (serialize_props params) @ ''}}''))\<rparr>
                 # settled_reads r\<rparr>))"
  apply (intro conjI allI impI)
  subgoal by (rule serialize_props_append)
  subgoal by simp
  subgoal by (rule stringify_object)
  subgoal by (rule build_request_json_body; assumption)
  subgoal by (rule build_request_no_body; assumption)
  subgoal by (rule createPost_request)
  subgoal using build_request_json_body [OF post_is_not_get, of "[(''post'', JObject _)]"]
    by (simp only: wrapped_post_json) simp
  subgoal by (rule updatePost_request)
  subgoal using build_request_json_body [OF patch_is_not_get, of "[(''post'', JObject _)]"]
    by (simp only: wrapped_post_json) simp
  subgoal by (rule request_settles [OF build_request_json_body]; assumption)
  subgoal by (rule request_scripted_settles [OF build_request_json_body]; assumption)
  subgoal by (rule request_settles [OF build_request_no_body]; assumption)
  subgoal by (rule createPost_settles; assumption)
  subgoal by (rule updatePost_settles; assumption)
  done

theorem non_get_body_is_json_witness:
  \<open>createPost scripted (new_EsaClient ''test-token'' (Some ''test-team''))
     [(''name'', JString ''New Post''), (''body_md'', JString ''# New Post''),
      (''tags'', JArray [JString ''test'']), (''category'', JString ''general''),
      (''wip'', JBool True), (''message'', JString ''Create post'')] None
     \<lparr>world = [FetchResolved \<lparr>status = 200, response_headers = [],
                               json_result = Some (JObject [(''number'', JNumber (Num 1))]),
                               text_result = None\<rparr>],
      trace = []\<rparr>
   = Some (Fulfilled (JObject [(''number'', JNumber (Num 1))]),
       \<lparr>world = [],
        trace = [Fetch \<lparr>http_method = ''post'', url = ''https://api.esa.io/v1/teams/test-team/posts'',
                       headers = [(''Authorization'', ''Bearer test-token''),
                                  (''Content-Type'', ''application/json'')],
                       body = Some (TextBody ''{"post":{"name":"New Post","body_md":"# New Post","tags":["test"],"category":"general","wip":true,"message":"Create post"}}'')\<rparr>,
                 ReadJson]\<rparr>)
   \<and> request scripted (new_EsaClient ''test-token'' (Some ''test-team'')) ''delete''
       ''/teams/:team_name/posts/1'' (Plain []) None
       \<lparr>world = [FetchResolved \<lparr>status = 204, response_headers = [],
                                 json_result = None, text_result = None\<rparr>],
        trace = []\<rparr>
     = Some (Fulfilled JNull,
         \<lparr>world = [],
          trace = [Fetch \<lparr>http_method = ''delete'',
                         url = ''https://api.esa.io/v1/teams/test-team/posts/1'',
                         headers = [(''Authorization'', ''Bearer test-token''),
                                    (''Content-Type'', ''application/json'')],
                         body = None\<rparr>]\<rparr>)\<close>
proof -
  let ?c = "new_EsaClient ''test-token'' (Some ''test-team'')"
  let ?ps = "[(''name'', JString ''New Post''), (''body_md'', JString ''# New Post''),
      (''tags'', JArray [JString ''test'']), (''category'', JString ''general''),
      (''wip'', JBool True), (''message'', JString ''Create post'')]"
  let ?r1 = "\<lparr>status = 200, response_headers = [],
               json_result = Some (JObject [(''number'', JNumber (Num 1))]), text_result = None\<rparr>"
  let ?r2 = "\<lparr>status = 204, response_headers = [], json_result = None, text_result = None\<rparr>"
  let ?s1 = "\<lparr>world = [FetchResolved ?r1], trace = []\<rparr>"
  let ?s2 = "\<lparr>world = [FetchResolved ?r2], trace = []\<rparr>"
  note post_run = non_get_body_is_json
     [THEN conjunct2, THEN conjunct2, THEN conjunct2, THEN conjunct2, THEN conjunct2,
      THEN conjunct2, THEN conjunct2, THEN conjunct2, THEN conjunct2, THEN conjunct1, rule_format]
  note empty_run = non_get_body_is_json
     [THEN conjunct2, THEN conjunct2, THEN conjunct2, THEN conjunct2, THEN conjunct2,
      THEN conjunct2, THEN conjunct2, THEN conjunct2, THEN conjunct1, rule_format]
  have d: "toLowerCase ''delete'' \<noteq> ''get''" by code_simp
  have u1: "baseUrl ?c @ processedPath ?c ''/teams/:team_name/posts'' None
      = ''https://api.esa.io/v1/teams/test-team/posts''" by code_simp
  have u2: "baseUrl ?c @ processedPath ?c ''/teams/:team_name/posts/1'' None
      = ''https://api.esa.io/v1/teams/test-team/posts/1''" by code_simp
  have h: "default_headers ?c = [(''Authorization'', ''Bearer test-token''),
                     (''Content-Type'', ''application/json'')]"
    by code_simp
  have j: \<open>''{'' @ QuoteJSONString ''post'' @ '':{'' @ intercalate '','' (serialize_props ?ps) @ ''}}''
      = ''{"post":{"name":"New Post","body_md":"# New Post","tags":["test"],"category":"general","wip":true,"message":"Create post"}}''\<close>
    by code_simp
  have o1: "settled_outcome ?r1 = Fulfilled (JObject [(''number'', JNumber (Num 1))])"
    and e1: "settled_reads ?r1 = [ReadJson]"
    and o2: "settled_outcome ?r2 = Fulfilled JNull" and e2: "settled_reads ?r2 = []"
    by (simp_all add: settled_outcome_def settled_reads_def ok_def successData_def)
  have 1: "createPost scripted ?c ?ps None ?s1 =
        Some (settled_outcome ?r1,
              \<lparr>world = [],
               trace = trace ?s1 @
                 Fetch \<lparr>http_method = ''post'',
                        url = baseUrl ?c @ processedPath ?c ''/teams/:team_name/posts'' None,
                        headers = default_headers ?c,
                        body = Some (TextBody (''{'' @ QuoteJSONString ''post'' @ '':{'' @
                                 intercalate '','' (serialize_props ?ps) @ ''}}''))\<rparr>
                 # settled_reads ?r1\<rparr>)"
    by (rule post_run [where fetch = scripted]) (simp_all add: scripted_def)
  have 2: "request scripted ?c ''delete'' ''/teams/:team_name/posts/1'' (Plain []) None ?s2 =
        Some (settled_outcome ?r2,
              \<lparr>world = [],
               trace = trace ?s2 @
                 Fetch \<lparr>http_method = ''delete'',
                        url = baseUrl ?c @ processedPath ?c ''/teams/:team_name/posts/1'' None,
                        headers = default_headers ?c, body = None\<rparr>
                 # settled_reads ?r2\<rparr>)"
    by (rule empty_run [where fetch = scripted, OF d]) (simp_all add: scripted_def)
  from 1 2 show ?thesis
    unfolding u1 u2 h j o1 e1 o2 e2 by simp
qed

text \<open>
  C6 (as amended). The effective team is the override when the override is a non-empty
  string, else the team of the session; it resolves to none when that is missing or
  empty too. When the effective team resolves and holds no dollar sign, the first
  occurrence of the placeholder is replaced by it (the occurrence after a prefix without
  a colon is the first one); when no team resolves, the path is left as it is. The URL of
  every exchange starts with the base followed by the processed path, and
  \<^verbatim>\<open>getTeam\<close> with the override \<^verbatim>\<open>acme\<close> is the request core on
  \<^verbatim>\<open>/teams/:team_name\<close>. The last five parts are about the exchange that is handed
  to the transport: a call whose answer is not a 429 settles with the exchange it built
  in its trace (on the scripted transport also after any number of 429s, every retry
  being this exchange); a call without parameters goes to the base followed by the path
  with the team in the place of the placeholder, or by the path as it is when no team
  resolves; and \<^verbatim>\<open>getTeam\<close> with the override \<^verbatim>\<open>acme\<close> issues its exchange
  against \<^verbatim>\<open>/teams/acme\<close> whatever the team of the session.
\<close>

theorem team_resolution_and_path:
  "(\<forall>this t. (truthy t \<longrightarrow> effective_team this t = t)
            \<and> (\<not> truthy t \<longrightarrow> effective_team this t = teamName this))
   \<and> (\<forall>this t team pre suf.
        effective_team this t = Some team \<longrightarrow> team \<noteq> [] \<longrightarrow>
        CHR ''$'' \<notin> set team \<longrightarrow>
        indexOf (pre @ '':team_name'' @ suf) '':team_name'' = Some (length pre) \<longrightarrow>
        processedPath this (pre @ '':team_name'' @ suf) t = pre @ team @ suf)
   \<and> (\<forall>pre suf.
        CHR '':'' \<notin> set pre \<longrightarrow>
        indexOf (pre @ '':team_name'' @ suf) '':team_name'' = Some (length pre))
   \<and> (\<forall>this t path. \<not> truthy (effective_team this t) \<longrightarrow> processedPath this path t = path)
   \<and> (\<forall>this method path params t req.
        build_request this method path params t = Inr req \<longrightarrow>
        take (length (baseUrl this @ processedPath this path t)) (url req)
          = baseUrl this @ processedPath this path t)
   \<and> (\<forall>(fetch :: 'w transport) this s.
        getTeam fetch this (Some ''acme'') s =
          request fetch this ''get'' ''/teams/:team_name'' (Plain []) (Some ''acme'') s
        \<and> build_request this ''get'' ''/teams/:team_name'' (Plain []) (Some ''acme'') =
            Inr \<lparr>http_method = ''get'', url = baseUrl this @ ''/teams/acme'',
                 headers = default_headers this, body = None\<rparr>)
   \<and> (\<forall>(fetch :: 'w transport) this method path params t s req r w'.
        build_request this method path params t = Inr req \<longrightarrow>
        fetch (world s) req = (FetchResolved r, w') \<longrightarrow> status r \<noteq> 429 \<longrightarrow>
        request fetch this method path params t s =
          Some (settled_outcome r,
                \<lparr>world = w', trace = trace s @ Fetch req # settled_reads r\<rparr>))
   \<and> (\<forall>this method path params t req rs r rest tr.
        build_request this method path params t = Inr req \<longrightarrow>
        (\<forall>x\<in>set rs. status x = 429) \<longrightarrow> status r \<noteq> 429 \<longrightarrow>
        request scripted this method path params t
          \<lparr>world = map FetchResolved rs @ FetchResolved r # rest, trace = tr\<rparr>
        = Some (settled_outcome r,
                \<lparr>world = rest,
                 trace = tr @ concat (map (retry_round req) rs) @ Fetch req # settled_reads r\<rparr>))
   \<and> (\<forall>(fetch :: 'w transport) this method t team pre suf s r w'.
        effective_team this t = Some team \<longrightarrow> team \<noteq> [] \<longrightarrow>
        CHR ''$'' \<notin> set team \<longrightarrow>
        indexOf (pre @ '':team_name'' @ suf) '':team_name'' = Some (length pre) \<longrightarrow>
        fetch (world s)
          \<lparr>http_method = method, url = baseUrl this @ pre @ team @ suf,
           headers = default_headers this, body = None\<rparr> = (FetchResolved r, w') \<longrightarrow>
        status r \<noteq> 429 \<longrightarrow>
        request fetch this method (pre @ '':team_name'' @ suf) (Plain []) t s =
          Some (settled_outcome r,
                \<lparr>world = w',
                 trace = trace s @
                   Fetch \<lparr>http_method = method, url = baseUrl this @ pre @ team @ suf,
                          headers = default_headers this, body = None\<rparr>
                   # settled_reads r\<rparr>))
   \<and> (\<forall>(fetch :: 'w transport) this method path t s r w'.
        \<not> truthy (effective_team this t) \<longrightarrow>
        fetch (world s)
          \<lparr>http_method = method, url = baseUrl this @ path,
           headers = default_headers this, body = None\<rparr> = (FetchResolved r, w') \<longrightarrow>
        status r \<noteq> 429 \<longrightarrow>
        request fetch this method path (Plain []) t s =
          Some (settled_outcome r,
                \<lparr>world = w',
                 trace = trace s @
                   Fetch \<lparr>http_method = method, url = baseUrl this @ path,
                          headers = default_headers this, body = None\<rparr>
                   # settled_reads r\<rparr>))
   \<and> (\<forall>(fetch :: 'w transport) this s r w'.
        fetch (world s)
          \<lparr>http_method = ''get'', url = baseUrl this @ ''/teams/acme'',
           headers = default_headers this, body = None\<rparr> = (FetchResolved r, w') \<longrightarrow>
        status r \<noteq> 429 \<longrightarrow>
        getTeam fetch this (Some ''acme'') s =
          Some (settled_outcome r,
                \<lparr>world = w',
                 trace = trace s @
                   Fetch \<lparr>http_method = ''get'', url = baseUrl this @ ''/teams/acme'',
                          headers = default_headers this, body = None\<rparr>
                   # settled_reads r\<rparr>))"
  apply (intro conjI allI impI)
  subgoal by (simp add: effective_team_def js_or_def)
  subgoal by (simp add: effective_team_def js_or_def)
  subgoal by (rule processedPath_substituted; assumption)
  subgoal by (rule indexOf_after_prefix; assumption)
  subgoal by (rule processedPath_unsubstituted; assumption)
  subgoal by (rule build_request_url_prefix; assumption)
  subgoal by (rule getTeam_request)
  subgoal by (rule getTeam_acme_request)
  subgoal by (rule request_settles; assumption)
  subgoal by (rule request_scripted_settles; assumption)
  subgoal by (rule request_substituted_settles; assumption)
  subgoal by (rule request_unsubstituted_settles; assumption)
  subgoal by (rule getTeam_acme_settles; assumption)
  done

theorem team_resolution_and_path_witness:
  "getTeam scripted (new_EsaClient ''test-token'' (Some ''test-team'')) (Some ''acme'')
     \<lparr>world = [FetchResolved \<lparr>status = 200, response_headers = [],
                               json_result = Some (JObject [(''name'', JString ''acme'')]),
                               text_result = None\<rparr>],
      trace = []\<rparr>
   = Some (Fulfilled (JObject [(''name'', JString ''acme'')]),
       \<lparr>world = [],
        trace = [Fetch \<lparr>http_method = ''get'', url = ''https://api.esa.io/v1/teams/acme'',
                       headers = [(''Authorization'', ''Bearer test-token''),
                                  (''Content-Type'', ''application/json'')],
                       body = None\<rparr>,
                 ReadJson]\<rparr>)
   \<and> request scripted (new_EsaClient ''test-token'' (Some ''test-team'')) ''get''
       ''/teams/:team_name/tags'' (Plain []) None
       \<lparr>world = [FetchResolved \<lparr>status = 200, response_headers = [],
                                 json_result = Some (JObject [(''tags'', JArray [])]),
                                 text_result = None\<rparr>],
        trace = []\<rparr>
     = Some (Fulfilled (JObject [(''tags'', JArray [])]),
         \<lparr>world = [],
          trace = [Fetch \<lparr>http_method = ''get'',
                         url = ''https://api.esa.io/v1/teams/test-team/tags'',
                         headers = [(''Authorization'', ''Bearer test-token''),
                                    (''Content-Type'', ''application/json'')],
                         body = None\<rparr>,
                   ReadJson]\<rparr>)
   \<and> request scripted (new_EsaClient ''test-token'' None) ''get''
       ''/teams/:team_name/tags'' (Plain []) None
       \<lparr>world = [FetchResolved \<lparr>status = 404, response_headers = [],
                                 json_result = Some (JObject [(''error'', JString ''not_found'')]),
                                 text_result = None\<rparr>],
        trace = []\<rparr>
     = Some (Rejected (EsaApiError 404 (JObject [(''error'', JString ''not_found'')])),
         \<lparr>world = [],
          trace = [Fetch \<lparr>http_method = ''get'',
                         url = ''https://api.esa.io/v1/teams/:team_name/tags'',
                         headers = [(''Authorization'', ''Bearer test-token''),
                                    (''Content-Type'', ''application/json'')],
                         body = None\<rparr>,
                   ReadJson]\<rparr>)"
proof -
  let ?c = "new_EsaClient ''test-token'' (Some ''test-team'')"
  let ?n = "new_EsaClient ''test-token'' None"
  let ?h = "[(''Authorization'', ''Bearer test-token''), (''Content-Type'', ''application/json'')]"
  let ?r1 = "\<lparr>status = 200, response_headers = [],
               json_result = Some (JObject [(''name'', JString ''acme'')]), text_result = None\<rparr>"
  let ?r2 = "\<lparr>status = 200, response_headers = [],
               json_result = Some (JObject [(''tags'', JArray [])]), text_result = None\<rparr>"
  let ?r3 = "\<lparr>status = 404, response_headers = [],
               json_result = Some (JObject [(''error'', JString ''not_found'')]), text_result = None\<rparr>"
  note acme = team_resolution_and_path
     [THEN conjunct2, THEN conjunct2, THEN conjunct2, THEN conjunct2, THEN conjunct2,
      THEN conjunct2, THEN conjunct2, THEN conjunct2, THEN conjunct2, THEN conjunct2, rule_format]
  note unsub = team_resolution_and_path
     [THEN conjunct2, THEN conjunct2, THEN conjunct2, THEN conjunct2, THEN conjunct2,
      THEN conjunct2, THEN conjunct2, THEN conjunct2, THEN conjunct2, THEN conjunct1, rule_format]
  note sub = team_resolution_and_path
     [THEN conjunct2, THEN conjunct2, THEN conjunct2, THEN conjunct2, THEN conjunct2,
      THEN conjunct2, THEN conjunct2, THEN conjunct2, THEN conjunct1, rule_format]
  note first = team_resolution_and_path
     [THEN conjunct2, THEN conjunct2, THEN conjunct1, rule_format]
  have bc: "baseUrl ?c = ''https://api.esa.io/v1''" and hc: "default_headers ?c = ?h"
    and bn: "baseUrl ?n = ''https://api.esa.io/v1''" and hn: "default_headers ?n = ?h"
    by (simp_all add: new_EsaClient_def default_headers_def)
  have o1: "settled_outcome ?r1 = Fulfilled (JObject [(''name'', JString ''acme'')])"
    and e1: "settled_reads ?r1 = [ReadJson]"
    and o2: "settled_outcome ?r2 = Fulfilled (JObject [(''tags'', JArray [])])"
    and e2: "settled_reads ?r2 = [ReadJson]"
    and o3: "settled_outcome ?r3 = Rejected (EsaApiError 404 (JObject [(''error'', JString ''not_found'')]))"
    and e3: "settled_reads ?r3 = [ReadJson]"
    by (simp_all add: settled_outcome_def settled_reads_def ok_def successData_def errorData_def)
  have 1: "getTeam scripted ?c (Some ''acme'') \<lparr>world = [FetchResolved ?r1], trace = []\<rparr>
      = Some (settled_outcome ?r1,
          \<lparr>world = [],
           trace = trace \<lparr>world = [FetchResolved ?r1], trace = []\<rparr> @
              Fetch \<lparr>http_method = ''get'', url = baseUrl ?c @ ''/teams/acme'',
                     headers = default_headers ?c, body = None\<rparr> # settled_reads ?r1\<rparr>)"
    by (rule acme [where fetch = scripted]) (simp_all add: scripted_def)
  have et: "effective_team ?c None = Some ''test-team''" by code_simp
  have i: "indexOf (''/teams/'' @ '':team_name'' @ ''/tags'') '':team_name''
             = Some (length ''/teams/'')"
    by (rule first) simp
  have 2: "request scripted ?c ''get'' (''/teams/'' @ '':team_name'' @ ''/tags'') (Plain []) None
             \<lparr>world = [FetchResolved ?r2], trace = []\<rparr>
      = Some (settled_outcome ?r2,
          \<lparr>world = [],
           trace = trace \<lparr>world = [FetchResolved ?r2], trace = []\<rparr> @
              Fetch \<lparr>http_method = ''get'', url = baseUrl ?c @ ''/teams/'' @ ''test-team'' @ ''/tags'',
                     headers = default_headers ?c, body = None\<rparr> # settled_reads ?r2\<rparr>)"
    by (rule sub [where fetch = scripted, OF et _ _ i]) (simp_all add: scripted_def)
  have en: "\<not> truthy (effective_team ?n None)" by code_simp
  have 3: "request scripted ?n ''get'' ''/teams/:team_name/tags'' (Plain []) None
             \<lparr>world = [FetchResolved ?r3], trace = []\<rparr>
      = Some (settled_outcome ?r3,
          \<lparr>world = [],
           trace = trace \<lparr>world = [FetchResolved ?r3], trace = []\<rparr> @
              Fetch \<lparr>http_method = ''get'', url = baseUrl ?n @ ''/teams/:team_name/tags'',
                     headers = default_headers ?n, body = None\<rparr> # settled_reads ?r3\<rparr>)"
    by (rule unsub [where fetch = scripted, OF en]) (simp_all add: scripted_def)
  from 1 2 3 show ?thesis
    unfolding bc hc bn hn o1 e1 o2 e2 o3 e3 by simp
qed

text \<open>
  C6 as stated fails: an override that is provided as the empty string is not the
  effective team; the team of the session is, and \<^verbatim>\<open>getTeam\<close> with the empty
  override issues its exchange against the path of the session's team.
\<close>

theorem empty_override_counterexample:
  "effective_team (new_EsaClient ''test-token'' (Some ''acme'')) (Some '''') = Some ''acme''
   \<and> getTeam scripted (new_EsaClient ''test-token'' (Some ''acme'')) (Some '''')
       \<lparr>world = [FetchResolved \<lparr>status = 200, response_headers = [],
                                 json_result = Some (JObject [(''name'', JString ''acme'')]),
                                 text_result = None\<rparr>],
        trace = []\<rparr>
     = Some (Fulfilled (JObject [(''name'', JString ''acme'')]),
         \<lparr>world = [],
          trace = [Fetch \<lparr>http_method = ''get'', url = ''https://api.esa.io/v1/teams/acme'',
                         headers = [(''Authorization'', ''Bearer test-token''),
                                    (''Content-Type'', ''application/json'')],
                         body = None\<rparr>,
                   ReadJson]\<rparr>)
   \<and> Some ''acme'' \<noteq> Some ''''
   \<and> ''https://api.esa.io/v1/teams/acme'' \<noteq> ''https://api.esa.io/v1/teams/''"
proof -
  let ?c = "new_EsaClient ''test-token'' (Some ''acme'')"
  let ?r = "\<lparr>status = 200, response_headers = [],
              json_result = Some (JObject [(''name'', JString ''acme'')]), text_result = None\<rparr>"
  let ?s = "\<lparr>world = [FetchResolved ?r], trace = []\<rparr>"
  let ?req = "\<lparr>http_method = ''get'', url = ''https://api.esa.io/v1/teams/acme'',
            headers = [(''Authorization'', ''Bearer test-token''),
                       (''Content-Type'', ''application/json'')],
            body = None\<rparr>"
  have 1: "effective_team ?c (Some '''') = Some ''acme''" by code_simp
  have b: "build_request ?c ''get'' ''/teams/:team_name'' (Plain []) (Some '''') = Inr ?req"
    by code_simp
  have f: "scripted (world ?s) ?req = (FetchResolved ?r, [])" by (simp add: scripted_def)
  have "request scripted ?c ''get'' ''/teams/:team_name'' (Plain []) (Some '''') ?s
      = Some (settled_outcome ?r, \<lparr>world = [], trace = trace ?s @ Fetch ?req # settled_reads ?r\<rparr>)"
    by (rule request_settles [where fetch = scripted and s = ?s, OF b f]) simp
  then have 2: "getTeam scripted ?c (Some '''') ?s
      = Some (Fulfilled (JObject [(''name'', JString ''acme'')]),
          \<lparr>world = [], trace = [Fetch ?req, ReadJson]\<rparr>)"
    by (simp add: getTeam_request settled_outcome_def settled_reads_def ok_def successData_def)
  from 1 2 show ?thesis by simp
qed

text \<open>
  C7. Emoji creation with no team resolvable (the override is missing or empty, and the
  session has no team or an empty one) throws the error
  \<^verbatim>\<open>Team name is required for creating emoji\<close> before any promise exists, and
  leaves the world and the trace as they were: no exchange is issued.
\<close>

theorem createEmoji_requires_team:
  "(\<forall>(fetch :: 'w transport) this params s.
      teamName this = None \<longrightarrow>
      createEmoji fetch this params None s =
        Some (Thrown (Error ''Team name is required for creating emoji''), s))
   \<and> (\<forall>(fetch :: 'w transport) this params t s.
      \<not> truthy t \<longrightarrow> \<not> truthy (teamName this) \<longrightarrow>
      createEmoji fetch this params t s =
        Some (Thrown (Error ''Team name is required for creating emoji''), s))"
proof (intro conjI allI impI)
  fix fetch :: "'w transport" and this :: client and params :: CreateEmojiParams
    and s :: "'w run"
  assume "teamName this = None"
  then have "\<not> truthy (js_or None (teamName this))"
    by (simp add: js_or_def truthy_def)
  then show "createEmoji fetch this params None s =
        Some (Thrown (Error ''Team name is required for creating emoji''), s)"
    by (simp add: createEmoji_def)
next
  fix fetch :: "'w transport" and this :: client and params :: CreateEmojiParams
    and t and s :: "'w run"
  assume "\<not> truthy t" and "\<not> truthy (teamName this)"
  then have "\<not> truthy (js_or t (teamName this))"
    by (simp add: js_or_def)
  then show "createEmoji fetch this params t s =
        Some (Thrown (Error ''Team name is required for creating emoji''), s)"
    by (simp add: createEmoji_def)
qed

theorem createEmoji_requires_team_witness:
  "createEmoji scripted (new_EsaClient ''test-token'' None)
     \<lparr>emoji_code = ''party'', emoji_origin_code = None, emoji_image = None\<rparr> None
     \<lparr>world = [], trace = []\<rparr>
   = Some (Thrown (Error ''Team name is required for creating emoji''), \<lparr>world = [], trace = []\<rparr>)
   \<and> exchanges (trace \<lparr>world = ([] :: fetch_result list), trace = []\<rparr>) = 0"
proof -
  have t: "\<not> truthy None" by (simp add: truthy_def)
  have c: "\<not> truthy (teamName (new_EsaClient ''test-token'' None))"
    by (simp add: new_EsaClient_def js_or_def truthy_def)
  show ?thesis
    using createEmoji_requires_team [THEN conjunct2, rule_format, where fetch = scripted, OF t c]
    by (simp add: exchanges_def)
qed

text \<open>
  C8. For every call that receives a 204 response the call is fulfilled with
  \<^verbatim>\<open>null\<close> and neither \<^verbatim>\<open>json()\<close> nor \<^verbatim>\<open>text()\<close> is invoked: the
  exchange that receives the 204 adds only itself to the trace, and on the scripted
  transport a call that receives a 204 after any number of 429s has read no body at all.
\<close>

theorem no_content_is_not_decoded:
  "(\<forall>(fetch :: 'w transport) this method path params t s req r w'.
      build_request this method path params t = Inr req \<longrightarrow>
      fetch (world s) req = (FetchResolved r, w') \<longrightarrow> status r = 204 \<longrightarrow>
      request fetch this method path params t s =
      Some (Fulfilled JNull, \<lparr>world = w', trace = trace s @ [Fetch req]\<rparr>))
   \<and> (\<forall>this method path params t req rs r rest tr.
      build_request this method path params t = Inr req \<longrightarrow>
      (\<forall>x\<in>set rs. status x = 429) \<longrightarrow> status r = 204 \<longrightarrow>
      request scripted this method path params t
        \<lparr>world = map FetchResolved rs @ FetchResolved r # rest, trace = tr\<rparr>
      = Some (Fulfilled JNull,
              \<lparr>world = rest, trace = tr @ concat (map (retry_round req) rs) @ [Fetch req]\<rparr>)
      \<and> ReadJson \<notin> set (concat (map (retry_round req) rs) @ [Fetch req])
      \<and> ReadText \<notin> set (concat (map (retry_round req) rs) @ [Fetch req]))"
  apply (intro conjI allI impI)
  subgoal by (rule request_no_content; assumption)
  subgoal by (rule request_scripted_no_content; assumption)
  subgoal using retry_rounds_read_nothing by blast
  subgoal using retry_rounds_read_nothing by blast
  done

theorem no_content_is_not_decoded_witness:
  "request scripted (new_EsaClient ''test-token'' (Some ''test-team'')) ''delete''
     ''/teams/:team_name/posts/7'' (Plain []) None
     \<lparr>world = [FetchResolved \<lparr>status = 429, response_headers = [],
                               json_result = None, text_result = None\<rparr>,
               FetchResolved \<lparr>status = 204, response_headers = [],
                               json_result = Some (JString ''never read''), text_result = Some []\<rparr>],
      trace = []\<rparr>
   = Some (Fulfilled JNull,
       \<lparr>world = [],
        trace = [Fetch \<lparr>http_method = ''delete'', url = ''https://api.esa.io/v1/teams/test-team/posts/7'',
                       headers = [(''Authorization'', ''Bearer test-token''),
                                  (''Content-Type'', ''application/json'')],
                       body = None\<rparr>,
                 ConsoleWarn ''Rate limit exceeded. Retrying after 60 seconds.'',
                 SetTimeout (Num 60000),
                 Fetch \<lparr>http_method = ''delete'', url = ''https://api.esa.io/v1/teams/test-team/posts/7'',
                       headers = [(''Authorization'', ''Bearer test-token''),
                                  (''Content-Type'', ''application/json'')],
                       body = None\<rparr>]\<rparr>)"
proof -
  let ?c = "new_EsaClient ''test-token'' (Some ''test-team'')"
  let ?req = "\<lparr>http_method = ''delete'', url = ''https://api.esa.io/v1/teams/test-team/posts/7'',
                headers = [(''Authorization'', ''Bearer test-token''),
                           (''Content-Type'', ''application/json'')],
                body = None\<rparr>"
  let ?r1 = "\<lparr>status = 429, response_headers = [], json_result = None, text_result = None\<rparr>"
  let ?r2 = "\<lparr>status = 204, response_headers = [],
               json_result = Some (JString ''never read''), text_result = Some []\<rparr>"
  have b: "build_request ?c ''delete'' ''/teams/:team_name/posts/7'' (Plain []) None = Inr ?req"
    by code_simp
  have r: "retry_round ?req ?r1 =
      [Fetch ?req, ConsoleWarn ''Rate limit exceeded. Retrying after 60 seconds.'', SetTimeout (Num 60000)]"
    by code_simp
  have "request scripted ?c ''delete'' ''/teams/:team_name/posts/7'' (Plain []) None
          \<lparr>world = map FetchResolved [?r1] @ FetchResolved ?r2 # [], trace = []\<rparr>
        = Some (Fulfilled JNull,
              \<lparr>world = [], trace = [] @ concat (map (retry_round ?req) [?r1]) @ [Fetch ?req]\<rparr>)"
    using no_content_is_not_decoded
      [THEN conjunct2, rule_format, where rs = "[?r1]" and r = ?r2, OF b]
    by simp
  then show ?thesis by (simp add: r)
qed

text \<open>
  C9. For every call that receives a response with a status in 200..299 other than 204,
  \<^verbatim>\<open>json()\<close> is invoked once and the call is fulfilled with what it decodes, or
  with the empty object when the decoding fails.
\<close>

theorem success_body_decoded_or_empty_object:
  "\<forall>(fetch :: 'w transport) this method path params t s req r w'.
      build_request this method path params t = Inr req \<longrightarrow>
      fetch (world s) req = (FetchResolved r, w') \<longrightarrow>
      200 \<le> status r \<longrightarrow> status r \<le> 299 \<longrightarrow> status r \<noteq> 204 \<longrightarrow>
      request fetch this method path params t s =
      Some (Fulfilled (case json_result r of Some d \<Rightarrow> d | None \<Rightarrow> JObject []),
            \<lparr>world = w', trace = trace s @ [Fetch req, ReadJson]\<rparr>)"
proof (intro allI impI)
  fix fetch :: "'w transport" and this verb path params t and s :: "'w run"
    and req and r :: response and w'
  assume b: "build_request this verb path params t = Inr req"
    and f: "fetch (world s) req = (FetchResolved r, w')"
    and lo: "200 \<le> status r" and hi: "status r \<le> 299" and nc: "status r \<noteq> 204"
  from lo hi have "ok r" by (simp add: ok_def)
  then have "request fetch this verb path params t s =
      Some (Fulfilled (fst (successData r)),
            emit (Fetch req # snd (successData r)) (s\<lparr>world := w'\<rparr>))"
    by (rule request_success_response [where fetch = fetch and s = s, OF b f])
  with nc show "request fetch this verb path params t s =
      Some (Fulfilled (case json_result r of Some d \<Rightarrow> d | None \<Rightarrow> JObject []),
            \<lparr>world = w', trace = trace s @ [Fetch req, ReadJson]\<rparr>)"
    by (simp add: successData_def emit_def split: option.splits)
qed

theorem success_body_decoded_or_empty_object_witness:
  "request scripted (new_EsaClient ''test-token'' (Some ''test-team'')) ''post''
     ''/teams/:team_name/posts/7/watch'' (Plain []) None
     \<lparr>world = [FetchResolved \<lparr>status = 201, response_headers = [],
                               json_result = None, text_result = Some []\<rparr>],
      trace = []\<rparr>
   = Some (Fulfilled (JObject []),
       \<lparr>world = [],
        trace = [Fetch \<lparr>http_method = ''post'',
                       url = ''https://api.esa.io/v1/teams/test-team/posts/7/watch'',
                       headers = [(''Authorization'', ''Bearer test-token''),
                                  (''Content-Type'', ''application/json'')],
                       body = None\<rparr>,
                 ReadJson]\<rparr>)"
proof -
  let ?c = "new_EsaClient ''test-token'' (Some ''test-team'')"
  let ?req = "\<lparr>http_method = ''post'',
                url = ''https://api.esa.io/v1/teams/test-team/posts/7/watch'',
                headers = [(''Authorization'', ''Bearer test-token''),
                           (''Content-Type'', ''application/json'')],
                body = None\<rparr>"
  let ?r = "\<lparr>status = 201, response_headers = [], json_result = None, text_result = Some []\<rparr>"
  let ?s = "\<lparr>world = [FetchResolved ?r], trace = []\<rparr>"
  have b: "build_request ?c ''post'' ''/teams/:team_name/posts/7/watch'' (Plain []) None = Inr ?req"
    by code_simp
  have f: "scripted (world ?s) ?req = (FetchResolved ?r, [])"
    by (simp add: scripted_def)
  show ?thesis
    using success_body_decoded_or_empty_object
      [rule_format, where fetch = scripted and s = ?s, OF b f]
    by simp
qed

text \<open>
  C10. In the query branch an entry is omitted exactly when its value is
  \<^verbatim>\<open>undefined\<close>: every other entry is kept with the result of its
  \<^verbatim>\<open>toString\<close>, among them \<^verbatim>\<open>false\<close>, \<^verbatim>\<open>0\<close> and the empty string; and
  \<^verbatim>\<open>toString\<close> on \<^verbatim>\<open>null\<close> throws, so that a GET call whose mapping holds a
  \<^verbatim>\<open>null\<close> is rejected with a TypeError and leaves the world and the trace as they
  were: no exchange is issued. The last two parts are about the exchange that is handed
  to the transport: a GET call whose mapping holds no \<^verbatim>\<open>null\<close> and whose answer is
  not a 429 settles with an exchange in its trace whose URL holds the kept entries, each
  with the text of its \<^verbatim>\<open>toString\<close>, and on the scripted transport every retry
  after a 429 carries the same URL.
\<close>

theorem get_query_omits_only_undefined:
  "(\<forall>kvs acc.
      (\<forall>kv\<in>set kvs. snd kv \<noteq> JNull) \<longrightarrow>
      append_params kvs acc =
        Inr (acc @ map (\<lambda>kv. (fst kv, ToString (snd kv))) (filter (\<lambda>kv. snd kv \<noteq> JUndefined) kvs)))
   \<and> (\<forall>v. v \<noteq> JUndefined \<longrightarrow> v \<noteq> JNull \<longrightarrow> call_toString v = Inr (ToString v))
   \<and> append_params [(''wip'', JBool False), (''page'', JNumber (Num 0)), (''q'', JString ''''),
                     (''sort'', JUndefined)] []
       = Inr [(''wip'', ''false''), (''page'', ''0''), (''q'', '''')]
   \<and> (\<forall>(fetch :: 'w transport) this method path kvs t s k.
        toLowerCase method = ''get'' \<longrightarrow> (k, JNull) \<in> set kvs \<longrightarrow>
        request fetch this method path (Plain kvs) t s =
          Some (Rejected (TypeError ''Cannot read properties of null (reading 'toString')''), s))
   \<and> (\<forall>(fetch :: 'w transport) this method path kvs t s r w'.
      toLowerCase method = ''get'' \<longrightarrow> kvs \<noteq> [] \<longrightarrow>
      (\<forall>kv\<in>set kvs. snd kv \<noteq> JNull) \<longrightarrow>
      fetch (world s)
          \<lparr>http_method = method,
           url = baseUrl this @ processedPath this path t @ ''?'' @
                 urlencoded_serialize
                   (map (\<lambda>kv. (fst kv, ToString (snd kv)))
                      (filter (\<lambda>kv. snd kv \<noteq> JUndefined) kvs)),
           headers = default_headers this, body = None\<rparr> = (FetchResolved r, w') \<longrightarrow>
      status r \<noteq> 429 \<longrightarrow>
      request fetch this method path (Plain kvs) t s =
        Some (settled_outcome r,
              \<lparr>world = w',
               trace = trace s @
                 Fetch \<lparr>http_method = method,
           url = baseUrl this @ processedPath this path t @ ''?'' @
                 urlencoded_serialize
                   (map (\<lambda>kv. (fst kv, ToString (snd kv)))
                      (filter (\<lambda>kv. snd kv \<noteq> JUndefined) kvs)),
           headers = default_headers this, body = None\<rparr>
                 # settled_reads r\<rparr>))
   \<and> (\<forall>this method path kvs t rs r rest tr.
      toLowerCase method = ''get'' \<longrightarrow> kvs \<noteq> [] \<longrightarrow>
      (\<forall>kv\<in>set kvs. snd kv \<noteq> JNull) \<longrightarrow>
      (\<forall>x\<in>set rs. status x = 429) \<longrightarrow> status r \<noteq> 429 \<longrightarrow>
      request scripted this method path (Plain kvs) t
        \<lparr>world = map FetchResolved rs @ FetchResolved r # rest, trace = tr\<rparr>
      = Some (settled_outcome r,
          \<lparr>world = rest,
           trace = tr
             @ concat (map (retry_round
                 \<lparr>http_method = method,
           url = baseUrl this @ processedPath this path t @ ''?'' @
                 urlencoded_serialize
                   (map (\<lambda>kv. (fst kv, ToString (snd kv)))
                      (filter (\<lambda>kv. snd kv \<noteq> JUndefined) kvs)),
           headers = default_headers this, body = None\<rparr>) rs)
             @ Fetch \<lparr>http_method = method,
           url = baseUrl this @ processedPath this path t @ ''?'' @
                 urlencoded_serialize
                   (map (\<lambda>kv. (fst kv, ToString (snd kv)))
                      (filter (\<lambda>kv. snd kv \<noteq> JUndefined) kvs)),
           headers = default_headers this, body = None\<rparr>
               # settled_reads r\<rparr>))"
proof -
  have a: "append_params kvs acc =
        Inr (acc @ map (\<lambda>kv. (fst kv, ToString (snd kv))) (filter (\<lambda>kv. snd kv \<noteq> JUndefined) kvs))"
    if "\<forall>kv\<in>set kvs. snd kv \<noteq> JNull" for kvs acc
    using append_params_no_null [OF that] by (simp add: coerced_entries_def)
  have b: "call_toString v = Inr (ToString v)" if "v \<noteq> JUndefined" "v \<noteq> JNull" for v
    using that by (simp add: call_toString_def)
  have c: "append_params [(''wip'', JBool False), (''page'', JNumber (Num 0)), (''q'', JString ''''),
                     (''sort'', JUndefined)] []
       = Inr [(''wip'', ''false''), (''page'', ''0''), (''q'', '''')]"
    by code_simp
  show ?thesis
    apply (intro conjI allI impI)
    subgoal by (rule a)
    subgoal by (rule b)
    subgoal by (rule c)
    subgoal by (rule request_build_error, rule build_request_get_null; assumption)
    subgoal by (rule request_get_query_settles [unfolded coerced_entries_def]; assumption)
    subgoal by (rule request_scripted_get_query_settles [unfolded coerced_entries_def]; assumption)
    done
qed

theorem get_query_omits_only_undefined_witness:
  "request scripted (new_EsaClient ''test-token'' (Some ''test-team'')) ''GET''
     ''/teams/:team_name/members'' (Plain [(''page'', JNumber (Num 2)), (''sort'', JNull)]) None
     \<lparr>world = [FetchResolved \<lparr>status = 200, response_headers = [],
                               json_result = Some (JObject []), text_result = None\<rparr>],
      trace = []\<rparr>
   = Some (Rejected (TypeError ''Cannot read properties of null (reading 'toString')''),
           \<lparr>world = [FetchResolved \<lparr>status = 200, response_headers = [],
                                     json_result = Some (JObject []), text_result = None\<rparr>],
            trace = []\<rparr>)
   \<and> request scripted (new_EsaClient ''test-token'' (Some ''test-team'')) ''get''
       ''/teams/:team_name/posts''
       (Plain [(''wip'', JBool False), (''page'', JNumber (Num 0)), (''q'', JString ''''),
               (''sort'', JUndefined)]) None
       \<lparr>world = [FetchResolved \<lparr>status = 200, response_headers = [],
                                 json_result = Some (JObject []), text_result = None\<rparr>],
        trace = []\<rparr>
     = Some (Fulfilled (JObject []),
         \<lparr>world = [],
          trace = [Fetch \<lparr>http_method = ''get'',
                         url = ''https://api.esa.io/v1/teams/test-team/posts?wip=false&page=0&q='',
                         headers = [(''Authorization'', ''Bearer test-token''),
                                    (''Content-Type'', ''application/json'')],
                         body = None\<rparr>,
                   ReadJson]\<rparr>)"
proof -
  let ?c = "new_EsaClient ''test-token'' (Some ''test-team'')"
  let ?kvs = "[(''wip'', JBool False), (''page'', JNumber (Num 0)), (''q'', JString ''''),
               (''sort'', JUndefined)]"
  let ?r = "\<lparr>status = 200, response_headers = [],
              json_result = Some (JObject []), text_result = None\<rparr>"
  let ?s = "\<lparr>world = [FetchResolved ?r], trace = []\<rparr>"
  have g: "toLowerCase ''GET'' = ''get''" by code_simp
  have g': "toLowerCase ''get'' = ''get''" by code_simp
  have n: "(''sort'', JNull) \<in> set [(''page'', JNumber (Num 2)), (''sort'', JNull)]" by simp
  have 1: "request scripted ?c ''GET'' ''/teams/:team_name/members''
             (Plain [(''page'', JNumber (Num 2)), (''sort'', JNull)]) None ?s
     = Some (Rejected (TypeError ''Cannot read properties of null (reading 'toString')''), ?s)"
    by (rule get_query_omits_only_undefined
          [THEN conjunct2, THEN conjunct2, THEN conjunct2, THEN conjunct1, rule_format, OF g n])
  have ne: "?kvs \<noteq> []" by simp
  have nn: "\<And>kv. kv \<in> set ?kvs \<Longrightarrow> snd kv \<noteq> JNull" by auto
  have u: "baseUrl ?c @ processedPath ?c ''/teams/:team_name/posts'' None @ ''?'' @
             urlencoded_serialize
               (map (\<lambda>kv. (fst kv, ToString (snd kv))) (filter (\<lambda>kv. snd kv \<noteq> JUndefined) ?kvs))
           = ''https://api.esa.io/v1/teams/test-team/posts?wip=false&page=0&q=''"
    by code_simp
  have h: "default_headers ?c = [(''Authorization'', ''Bearer test-token''),
                     (''Content-Type'', ''application/json'')]"
    by code_simp
  have o: "settled_outcome ?r = Fulfilled (JObject [])" and e: "settled_reads ?r = [ReadJson]"
    by (simp_all add: settled_outcome_def settled_reads_def ok_def successData_def)
  have 2: "request scripted ?c ''get'' ''/teams/:team_name/posts'' (Plain ?kvs) None ?s =
        Some (settled_outcome ?r,
              \<lparr>world = [],
               trace = trace ?s @
                 Fetch \<lparr>http_method = ''get'',
                        url = baseUrl ?c @ processedPath ?c ''/teams/:team_name/posts'' None @ ''?'' @
                          urlencoded_serialize
                            (map (\<lambda>kv. (fst kv, ToString (snd kv)))
                               (filter (\<lambda>kv. snd kv \<noteq> JUndefined) ?kvs)),
                        headers = default_headers ?c, body = None\<rparr>
                 # settled_reads ?r\<rparr>)"
    by (rule get_query_omits_only_undefined
          [THEN conjunct2, THEN conjunct2, THEN conjunct2, THEN conjunct2, THEN conjunct1,
           rule_format, where fetch = scripted, OF g' ne nn])
       (simp_all add: scripted_def)
  from 2 have "request scripted ?c ''get'' ''/teams/:team_name/posts'' (Plain ?kvs) None ?s =
     Some (Fulfilled (JObject []),
         \<lparr>world = [],
          trace = [Fetch \<lparr>http_method = ''get'',
                         url = ''https://api.esa.io/v1/teams/test-team/posts?wip=false&page=0&q='',
                         headers = [(''Authorization'', ''Bearer test-token''),
                                    (''Content-Type'', ''application/json'')],
                         body = None\<rparr>,
                   ReadJson]\<rparr>)"
    unfolding u h o e by simp
  with 1 show ?thesis by (rule conjI)
qed

end
